theory Spec2Isabelle
  imports Main "HOL-Library.Word"
begin

section \<open>The editing surface: echo suppression (media-src/src/main.tsx)\<close>

text \<open>
  A JavaScript string is a list of characters; a \<^typ>\<open>char\<close> stands for one code unit
  below 256. A value that may be \<open>null\<close> or \<open>undefined\<close> is an \<^typ>\<open>'a option\<close>.

  The rich-text engine is an external collaborator. Its state is a type variable \<open>'e\<close>
  and the three capabilities the surface uses are the fields of \<open>engine\<close>:
  \<open>editor.getDocument('markdown')\<close>, \<open>editor.setDocument('markdown', m, {keepId: true})\<close>
  and \<open>JSON.stringify(editor.getDocument('text'))\<close>.
\<close>

record 'e engine =
  getDocument :: "'e \<Rightarrow> string option"
  setDocument :: "string \<Rightarrow> 'e \<Rightarrow> 'e"
  getDocumentText :: "'e \<Rightarrow> string"

text \<open>Messages the surface posts to the host with \<open>vscode.postMessage\<close>.\<close>

datatype surface_message =
    Ready
  | Edit string
  | Save string

text \<open>
  The refs of \<open>EditorApp\<close> and what the surface does to the outside: the messages posted,
  the calls of \<open>setDocument\<close> and the number of calls of \<open>scheduleTocSync\<close>.
  \<open>previousContent\<close> is the variable closed over by the update listener.
\<close>

record 'e surface =
  editor :: 'e
  readyRef :: bool
  applyingRemoteRef :: bool
  hasUserInteractionRef :: bool
  lastSyncedMarkdownRef :: string
  pendingRemoteContentRef :: "string option"
  previousContent :: string
  postedToHost :: "surface_message list"
  setDocumentCalls :: "string list"
  tocSyncRequests :: nat

definition initialSurface :: "'e \<Rightarrow> string \<Rightarrow> 'e surface" where
  "initialSurface e txt =
     \<lparr>editor = e, readyRef = False, applyingRemoteRef = False,
      hasUserInteractionRef = False, lastSyncedMarkdownRef = [],
      pendingRemoteContentRef = None, previousContent = txt,
      postedToHost = [], setDocumentCalls = [], tocSyncRequests = 0\<rparr>"

definition postMessage :: "surface_message \<Rightarrow> 'e surface \<Rightarrow> 'e surface" where
  "postMessage m s = s\<lparr>postedToHost := postedToHost s @ [m]\<rparr>"

definition scheduleTocSync :: "'e surface \<Rightarrow> 'e surface" where
  "scheduleTocSync s = s\<lparr>tocSyncRequests := Suc (tocSyncRequests s)\<rparr>"

text \<open>\<open>String(editor.getDocument('markdown') ?? '')\<close>\<close>

definition currentMarkdown :: "'e engine \<Rightarrow> 'e surface \<Rightarrow> string" where
  "currentMarkdown eng s = (case getDocument eng (editor s) of None \<Rightarrow> [] | Some m \<Rightarrow> m)"

definition syncToHost :: "'e engine \<Rightarrow> 'e surface \<Rightarrow> 'e surface" where
  "syncToHost eng s =
     (if applyingRemoteRef s then s
      else if \<not> hasUserInteractionRef s then s
      else
        let markdown = currentMarkdown eng s in
        if markdown = lastSyncedMarkdownRef s then s
        else postMessage (Edit markdown) (s\<lparr>lastSyncedMarkdownRef := markdown\<rparr>))"

text \<open>
  The listener registered with \<open>registerUpdateListener\<close>. Its arguments are the sizes of
  \<open>dirtyElements\<close> and \<open>dirtyLeaves\<close>.
\<close>

definition updateListener :: "'e engine \<Rightarrow> nat \<Rightarrow> nat \<Rightarrow> 'e surface \<Rightarrow> 'e surface" where
  "updateListener eng dirtyElements dirtyLeaves s =
     (if dirtyElements = 0 \<and> dirtyLeaves = 0 then s
      else
        let currentContent = getDocumentText eng (editor s) in
        if currentContent = previousContent s then s
        else scheduleTocSync (syncToHost eng (s\<lparr>previousContent := currentContent\<rparr>)))"


definition handleSave :: "'e engine \<Rightarrow> 'e surface \<Rightarrow> 'e surface" where
  "handleSave eng s =
     (let markdown = currentMarkdown eng s in
      postMessage (Save markdown) (s\<lparr>lastSyncedMarkdownRef := markdown\<rparr>))"

text \<open>
  A call of \<open>setDocument\<close> on the engine. The engine may run the update listener before
  the call returns: \<open>notifications\<close> lists the \<open>(dirtyElements, dirtyLeaves)\<close> sizes of
  the updates it delivers during the call, in order.
\<close>

definition deliver :: "'e engine \<Rightarrow> (nat \<times> nat) list \<Rightarrow> 'e surface \<Rightarrow> 'e surface" where
  "deliver eng notifications s =
     foldl (\<lambda>t (de, dl). updateListener eng de dl t) s notifications"

definition callSetDocument ::
  "'e engine \<Rightarrow> (nat \<times> nat) list \<Rightarrow> string \<Rightarrow> 'e surface \<Rightarrow> 'e surface" where
  "callSetDocument eng notifications markdown s =
     deliver eng notifications
       (s\<lparr>editor := setDocument eng markdown (editor s),
          setDocumentCalls := setDocumentCalls s @ [markdown]\<rparr>)"

definition setEditorMarkdown ::
  "'e engine \<Rightarrow> (nat \<times> nat) list \<Rightarrow> string \<Rightarrow> 'e surface \<Rightarrow> 'e surface" where
  "setEditorMarkdown eng notifications markdown s0 =
     (let s = s0\<lparr>hasUserInteractionRef := False\<rparr> in
      if \<not> readyRef s then s\<lparr>pendingRemoteContentRef := Some markdown\<rparr>
      else if currentMarkdown eng s = markdown then s\<lparr>lastSyncedMarkdownRef := markdown\<rparr>
      else
        let s1 = s\<lparr>applyingRemoteRef := True\<rparr>;
            s2 = callSetDocument eng notifications markdown s1;
            s3 = s2\<lparr>applyingRemoteRef := False\<rparr>;
            s4 = s3\<lparr>lastSyncedMarkdownRef := markdown\<rparr>
        in scheduleTocSync s4)"



text \<open>A sample engine that keeps the markdown it is given, used to run the model.\<close>

definition plainEngine :: "string engine" where
  "plainEngine = \<lparr>getDocument = Some, setDocument = (\<lambda>m _. m), getDocumentText = id\<rparr>"


section \<open>The outline (media-src/src/main.tsx)\<close>

text \<open>\<open>String(n)\<close> for a non-negative integer: its decimal digits.\<close>

definition digitChar :: "nat \<Rightarrow> char" where
  "digitChar d = ''0123456789'' ! d"

function decimal :: "nat \<Rightarrow> string" where
  "decimal n = (if n < 10 then [digitChar n] else decimal (n div 10) @ [digitChar (n mod 10)])"
  by pat_completeness auto
termination
  by (relation "measure id") auto

text \<open>
  \<open>String.prototype.trim\<close> removes white space and line terminators at both ends;
  below 256 these are the code units 9 to 13, 32 and 160.
\<close>

definition isWhiteSpace :: "char \<Rightarrow> bool" where
  "isWhiteSpace c =
     (c \<in> set [CHR 0x09, CHR 0x0A, CHR 0x0B, CHR 0x0C, CHR 0x0D, CHR 0x20, CHR 0xA0])"

definition trim :: "string \<Rightarrow> string" where
  "trim s = rev (dropWhile isWhiteSpace (rev (dropWhile isWhiteSpace s)))"

text \<open>
  The selector of \<open>updateTocFromDom\<close> matches \<open>h1\<close> to \<open>h6\<close> elements only, so the tag
  of a heading node is one of six; \<open>levelOf\<close> is
  \<open>Number.parseInt(node.tagName.slice(1), 10)\<close> on them.
\<close>

datatype heading_tag = H1 | H2 | H3 | H4 | H5 | H6

fun levelOf :: "heading_tag \<Rightarrow> int" where
  "levelOf H1 = 1"
| "levelOf H2 = 2"
| "levelOf H3 = 3"
| "levelOf H4 = 4"
| "levelOf H5 = 5"
| "levelOf H6 = 6"

record heading_node =
  tagName :: heading_tag
  textContent :: "string option"
  datasetTocId :: "string option"

record TocItem =
  depth :: int
  id' :: string
  level :: int
  text' :: string

definition tocTitleId :: string where
  "tocTitleId = ''toc-document-title''"

function isSameTocFrom :: "TocItem list \<Rightarrow> TocItem list \<Rightarrow> nat \<Rightarrow> bool" where
  "isSameTocFrom a b index =
     (if index < length a then
        (if id' (a ! index) \<noteq> id' (b ! index) then False
         else if depth (a ! index) \<noteq> depth (b ! index) then False
         else if level (a ! index) \<noteq> level (b ! index) then False
         else if text' (a ! index) \<noteq> text' (b ! index) then False
         else isSameTocFrom a b (index + 1))
      else True)"
  by pat_completeness auto
termination
  by (relation "measure (\<lambda>(a, b, index). length a - index)") auto

definition isSameToc :: "TocItem list \<Rightarrow> TocItem list \<Rightarrow> bool" where
  "isSameToc a b = (if length a \<noteq> length b then False else isSameTocFrom a b 0)"

text \<open>\<open>node.textContent?.trim() ?? ''\<close>\<close>

definition trimmedText :: "heading_node \<Rightarrow> string" where
  "trimmedText node = (case textContent node of None \<Rightarrow> [] | Some t \<Rightarrow> trim t)"

text \<open>The \<open>map\<close> and \<open>filter\<close> that give \<open>extracted\<close>: level, node and trimmed text.\<close>

definition extracted :: "heading_node list \<Rightarrow> (int \<times> heading_node \<times> string) list" where
  "extracted headingNodes =
     filter (\<lambda>(lvl, node, txt). txt \<noteq> [])
       (map (\<lambda>node. (levelOf (tagName node), node, trimmedText node)) headingNodes)"

definition headingId :: "nat \<Rightarrow> string" where
  "headingId index = ''toc-heading-'' @ decimal index"

definition headingItems :: "heading_node list \<Rightarrow> TocItem list" where
  "headingItems headingNodes =
     map (\<lambda>(index, (lvl, node, txt)).
            \<lparr>depth = max 0 (lvl - 1), id' = headingId index, level = lvl, text' = txt\<rparr>)
       (enumerate 0 (extracted headingNodes))"

text \<open>The \<open>unshift\<close> of the title entry when \<open>nextItems.length > 0\<close>.\<close>

definition nextItems :: "string \<Rightarrow> heading_node list \<Rightarrow> TocItem list" where
  "nextItems titleText headingNodes =
     (let items = headingItems headingNodes in
      if length items > 0
      then \<lparr>depth = 0, id' = tocTitleId, level = 1, text' = titleText\<rparr> # items
      else items)"

text \<open>
  What the two passes leave in \<open>dataset.tocId\<close>: the identifier on a heading that is
  kept, counted among the kept ones, and nothing on a heading with empty text.
\<close>

fun stampNodes :: "nat \<Rightarrow> heading_node list \<Rightarrow> heading_node list" where
  "stampNodes index [] = []"
| "stampNodes index (node # nodes) =
     (if trimmedText node \<noteq> []
      then node\<lparr>datasetTocId := Some (headingId index)\<rparr> # stampNodes (index + 1) nodes
      else node\<lparr>datasetTocId := None\<rparr> # stampNodes index nodes)"

record toc_view =
  tocItems :: "TocItem list"
  tocCollapsed :: bool
  activeTocId :: "string option"

definition updateTocFromDom ::
  "string \<Rightarrow> heading_node list \<Rightarrow> toc_view \<Rightarrow> heading_node list \<times> toc_view" where
  "updateTocFromDom titleText headingNodes v =
     (let items = nextItems titleText headingNodes;
          v1 = v\<lparr>tocItems := (if isSameToc (tocItems v) items then tocItems v else items)\<rparr>;
          v2 = (if length items = 0 then v1\<lparr>tocCollapsed := True, activeTocId := None\<rparr> else v1)
      in (stampNodes 0 headingNodes, v2))"

section \<open>The host: content normalisation (extension host)\<close>

abbreviation CR :: char where "CR \<equiv> CHR 0x0D"
abbreviation NL :: char where "NL \<equiv> CHR 0x0A"

datatype EndOfLine = LF | CRLF

text \<open>\<open>.replace(/\r\n/g, '\n')\<close>, scanning from the left.\<close>

fun replaceCRLF :: "string \<Rightarrow> string" where
  "replaceCRLF (c # d # cs) =
     (if c = CR \<and> d = NL then NL # replaceCRLF cs else c # replaceCRLF (d # cs))"
| "replaceCRLF cs = cs"

text \<open>\<open>.replace(/\r/g, '\n')\<close>\<close>

definition replaceCR :: "string \<Rightarrow> string" where
  "replaceCR cs = map (\<lambda>c. if c = CR then NL else c) cs"

text \<open>\<open>.replace(/\n/g, '\r\n')\<close>\<close>

definition replaceLF :: "string \<Rightarrow> string" where
  "replaceLF cs = concat (map (\<lambda>c. if c = NL then [CR, NL] else [c]) cs)"

definition normalizeContentForDocument :: "string \<Rightarrow> EndOfLine \<Rightarrow> string" where
  "normalizeContentForDocument content documentEol =
     (let normalizedLf = replaceCR (replaceCRLF content);
          eol = (if documentEol = CRLF then [CR, NL] else [NL])
      in if eol = [NL] then normalizedLf else replaceLF normalizedLf)"

section \<open>The host: saving an uploaded image\<close>

type_synonym byte = "8 word"

text \<open>
  The file system as the host sees it: the files by path, the directories made, and
  whether \<open>fs.mkdir\<close> and \<open>fs.writeFile\<close> reject (with the message of their error).
  \<open>fs.access\<close> resolves for a path that has a file and rejects for any other.
\<close>

record fsys =
  files :: "string \<rightharpoonup> byte list"
  directories :: "string set"
  mkdirError :: "string option"
  writeFileError :: "string option"

definition fsAccess :: "fsys \<Rightarrow> string \<Rightarrow> bool" where
  "fsAccess fs path = (files fs path \<noteq> None)"

text \<open>The fields of \<open>new Date()\<close> that the stamp reads.\<close>

record date_time =
  getFullYear :: nat
  getMonth :: nat
  getDate :: nat
  getHours :: nat
  getMinutes :: nat
  getSeconds :: nat

text \<open>\<open>String(n).padStart(2, '0')\<close>\<close>

definition padStart2 :: "nat \<Rightarrow> string" where
  "padStart2 n = replicate (2 - length (decimal n)) CHR ''0'' @ decimal n"

definition stampOf :: "date_time \<Rightarrow> string" where
  "stampOf now =
     decimal (getFullYear now) @ padStart2 (getMonth now + 1) @ padStart2 (getDate now)
     @ ''-'' @ padStart2 (getHours now) @ padStart2 (getMinutes now) @ padStart2 (getSeconds now)"

text \<open>\<open>path.join\<close> of a directory and a name that has no separator.\<close>

definition pathJoin :: "string \<Rightarrow> string \<Rightarrow> string" where
  "pathJoin dir name = dir @ ''/'' @ name"

datatype upload_error =
    MkdirFailed string
  | NameExhausted
  | InvalidBase64
  | EmptyImage
  | TooLarge nat
  | WriteFailed string

text \<open>
  \<open>(buffer.length / 1024 / 1024).toFixed(1)\<close>: the quotient is exact in a double, and
  \<open>toFixed(1)\<close> takes the nearest multiple of one tenth, the larger one of two.
\<close>

definition megabytesToFixed1 :: "nat \<Rightarrow> string" where
  "megabytesToFixed1 len =
     (let tenths = (20 * len + 1048576) div 2097152
      in decimal (tenths div 10) @ ''.'' @ decimal (tenths mod 10))"

fun errorMessage :: "upload_error \<Rightarrow> string" where
  "errorMessage (MkdirFailed m) = m"
| "errorMessage NameExhausted = ''Could not generate a unique image filename. Please try again.''"
| "errorMessage InvalidBase64 = ''Invalid base64 image data.''"
| "errorMessage EmptyImage = ''Image data is empty. Save failed.''"
| "errorMessage (TooLarge len) =
     ''Image exceeds the 10 MB size limit (got '' @ megabytesToFixed1 len @ '' MB).''"
| "errorMessage (WriteFailed m) = m"

definition candidateName :: "string \<Rightarrow> string \<Rightarrow> string \<Rightarrow> nat \<Rightarrow> string" where
  "candidateName baseName stamp extension index =
     (let suffix = (if index = 0 then [] else ''-'' @ decimal index)
      in baseName @ ''-'' @ stamp @ suffix @ extension)"

text \<open>The \<open>for\<close> loop of \<open>createUniqueImageFilePath\<close>, from \<open>index\<close> on.\<close>

function probeFrom ::
  "fsys \<Rightarrow> string \<Rightarrow> string \<Rightarrow> string \<Rightarrow> string \<Rightarrow> nat \<Rightarrow> upload_error + string" where
  "probeFrom fs assetsDir baseName stamp extension index =
     (if index < 1000 then
        (let fileName = candidateName baseName stamp extension index;
             candidate = pathJoin assetsDir fileName
         in if fsAccess fs candidate
            then probeFrom fs assetsDir baseName stamp extension (index + 1)
            else Inr candidate)
      else Inl NameExhausted)"
  by pat_completeness auto
termination
  by (relation "measure (\<lambda>(fs, assetsDir, baseName, stamp, extension, index). 1000 - index)") auto

definition createUniqueImageFilePath ::
  "fsys \<Rightarrow> date_time \<Rightarrow> string \<Rightarrow> string \<Rightarrow> string \<Rightarrow> upload_error + string" where
  "createUniqueImageFilePath fs now assetsDir baseName extension =
     probeFrom fs assetsDir baseName (stampOf now) extension 0"

text \<open>
  What \<open>saveImageToAssets\<close> takes from the platform: the directory of the document, the
  clock, and \<open>Buffer.from(raw, 'base64')\<close>. The two naming helpers only hand a base name
  and an extension to \<open>createUniqueImageFilePath\<close>; no property below depends on what
  they compute, so they are kept as functions of the file name and the media type.
\<close>

record platform =
  documentDir :: string
  clock :: date_time
  bufferFromBase64 :: "string \<Rightarrow> byte list"
  inferImageExtension :: "string option \<Rightarrow> string option \<Rightarrow> string"
  safeImageBaseName :: "string option \<Rightarrow> string"

record upload_payload =
  payloadData :: string
  payloadFileName :: "string option"
  payloadMimeType :: "string option"

text \<open>
  \<open>dataBase64.includes(',') ? dataBase64.slice(dataBase64.indexOf(',') + 1) : dataBase64\<close>
\<close>

definition stripDataUri :: "string \<Rightarrow> string" where
  "stripDataUri d = (if CHR '','' \<in> set d then tl (dropWhile (\<lambda>c. c \<noteq> CHR '','') d) else d)"

text \<open>The class \<open>[\w+/]\<close> and the test \<open>/^[\w+/]+=*$/.test(raw)\<close>.\<close>

definition isWordPlusSlash :: "char \<Rightarrow> bool" where
  "isWordPlusSlash c =
     (c \<in> set ''ABCDEFGHIJKLMNOPQRSTUVWXYZabcdefghijklmnopqrstuvwxyz0123456789_''
      \<or> c = CHR ''+'' \<or> c = CHR ''/'')"

definition base64Test :: "string \<Rightarrow> bool" where
  "base64Test raw =
     (takeWhile isWordPlusSlash raw \<noteq> [] \<and>
      list_all (\<lambda>c. c = CHR ''='') (dropWhile isWordPlusSlash raw))"

definition MAX_SIZE :: nat where
  "MAX_SIZE = 10 * 1024 * 1024"

text \<open>\<open>String.prototype.includes\<close>, by which a message is searched for a phrase.\<close>

fun includesStr :: "string \<Rightarrow> string \<Rightarrow> bool" where
  "includesStr [] sub = (sub = [])"
| "includesStr (c # cs) sub = (take (length sub) (c # cs) = sub \<or> includesStr cs sub)"

text \<open>
  \<open>path.relative(parentDir, absolutePath)\<close> with forward slashes, for a path below
  \<open>parentDir\<close>.
\<close>

definition relativeTo :: "string \<Rightarrow> string \<Rightarrow> string" where
  "relativeTo parentDir absolutePath = drop (length parentDir + 1) absolutePath"

definition saveImageToAssets ::
  "platform \<Rightarrow> upload_payload \<Rightarrow> fsys \<Rightarrow> (upload_error + string) \<times> fsys" where
  "saveImageToAssets pf payload fs0 =
     (let parentDir = documentDir pf;
          assetsDir = pathJoin parentDir ''assets''
      in case mkdirError fs0 of
           Some m \<Rightarrow> (Inl (MkdirFailed m), fs0)
         | None \<Rightarrow>
            let fs = fs0\<lparr>directories := insert assetsDir (directories fs0)\<rparr>;
                extension = inferImageExtension pf (payloadFileName payload) (payloadMimeType payload);
                baseName = safeImageBaseName pf (payloadFileName payload)
            in case createUniqueImageFilePath fs (clock pf) assetsDir baseName extension of
                 Inl e \<Rightarrow> (Inl e, fs)
               | Inr absolutePath \<Rightarrow>
                  let raw = stripDataUri (payloadData payload) in
                  if \<not> base64Test raw then (Inl InvalidBase64, fs)
                  else
                    let buffer = bufferFromBase64 pf raw in
                    if length buffer = 0 then (Inl EmptyImage, fs)
                    else if length buffer > MAX_SIZE then (Inl (TooLarge (length buffer)), fs)
                    else case writeFileError fs of
                           Some m \<Rightarrow> (Inl (WriteFailed m), fs)
                         | None \<Rightarrow>
                             (Inr (relativeTo parentDir absolutePath),
                              fs\<lparr>files := (files fs)(absolutePath \<mapsto> buffer)\<rparr>))"

section \<open>The host: messages and the document (resolveCustomTextEditor)\<close>

datatype command = CmdReady | CmdEdit | CmdSave | CmdOpenLink | CmdUploadImage

record WebviewMessage =
  command :: command
  content :: "string option"
  href :: "string option"
  requestId :: "string option"
  fileName :: "string option"
  mimeType :: "string option"
  dataBase64 :: "string option"

record UploadImageResultMessage =
  resultRequestId :: string
  resultUrl :: "string option"
  resultError :: "string option"
  resultOk :: bool

datatype update_type = Init | Update

text \<open>
  What the host posts to the webview: a snapshot of the document (its type and content),
  or the result of an upload.
\<close>

datatype host_message =
    Snapshot update_type string
  | UploadImageResult UploadImageResultMessage

record host =
  documentText :: string
  documentEol :: EndOfLine
  isApplyingFromWebview :: bool
  postedToWebview :: "host_message list"
  saveRequests :: nat
  fileSystem :: fsys

definition postDocumentToWebview :: "update_type \<Rightarrow> host \<Rightarrow> host" where
  "postDocumentToWebview ty h =
     h\<lparr>postedToWebview := postedToWebview h @ [Snapshot ty (documentText h)]\<rparr>"

definition postResult :: "UploadImageResultMessage \<Rightarrow> host \<Rightarrow> host" where
  "postResult payload h =
     h\<lparr>postedToWebview := postedToWebview h @ [UploadImageResult payload]\<rparr>"

text \<open>
  \<open>applyContent\<close> awaits \<open>vscode.workspace.applyEdit\<close>, so it runs in two parts. The
  first part runs up to the \<open>await\<close> and gives the text of the edit it has asked for, if
  any; the second part is the \<open>finally\<close> block, run when the promise settles.
\<close>

definition applyContentBegin :: "string \<Rightarrow> host \<Rightarrow> string option \<times> host" where
  "applyContentBegin c h =
     (let normalizedContent = normalizeContentForDocument c (documentEol h) in
      if normalizedContent = documentText h then (None, h)
      else (Some normalizedContent, h\<lparr>isApplyingFromWebview := True\<rparr>))"

definition applyContentFinally :: "host \<Rightarrow> host" where
  "applyContentFinally h = h\<lparr>isApplyingFromWebview := False\<rparr>"

text \<open>
  The handler of \<open>onDidChangeTextDocument\<close>; \<open>sameDocument\<close> says whether the event is
  for the document of this editor.
\<close>

definition onDidChangeTextDocument :: "bool \<Rightarrow> host \<Rightarrow> host" where
  "onDidChangeTextDocument sameDocument h =
     (if \<not> sameDocument then h
      else if isApplyingFromWebview h then h
      else postDocumentToWebview Update h)"

text \<open>The \<open>upload-image\<close> case of \<open>onDidReceiveMessage\<close>.\<close>

definition handleUploadImage :: "platform \<Rightarrow> WebviewMessage \<Rightarrow> host \<Rightarrow> host" where
  "handleUploadImage pf message h =
     (case requestId message of
        None \<Rightarrow>
          postResult \<lparr>resultRequestId = [], resultUrl = None,
                      resultError = Some ''Missing requestId.'', resultOk = False\<rparr> h
      | Some rid \<Rightarrow>
          if rid = [] then
            postResult \<lparr>resultRequestId = rid, resultUrl = None,
                        resultError = Some ''Missing requestId.'', resultOk = False\<rparr> h
          else
            (case dataBase64 message of
               None \<Rightarrow>
                 postResult \<lparr>resultRequestId = rid, resultUrl = None,
                             resultError = Some ''Invalid image data.'', resultOk = False\<rparr> h
             | Some d \<Rightarrow>
                 if d = [] then
                   postResult \<lparr>resultRequestId = rid, resultUrl = None,
                               resultError = Some ''Invalid image data.'', resultOk = False\<rparr> h
                 else
                   (case saveImageToAssets pf
                           \<lparr>payloadData = d, payloadFileName = fileName message,
                            payloadMimeType = mimeType message\<rparr> (fileSystem h) of
                      (Inr url, fs) \<Rightarrow>
                        postResult \<lparr>resultRequestId = rid, resultUrl = Some url,
                                    resultError = None, resultOk = True\<rparr>
                          (h\<lparr>fileSystem := fs\<rparr>)
                    | (Inl error, fs) \<Rightarrow>
                        postResult \<lparr>resultRequestId = rid, resultUrl = None,
                                    resultError = Some (errorMessage error), resultOk = False\<rparr>
                          (h\<lparr>fileSystem := fs\<rparr>))))"

text \<open>
  \<open>onDidReceiveMessage\<close> is the handler of a message from the webview, up to its first
  \<open>await\<close> of \<open>applyEdit\<close>: an \<open>edit\<close> or \<open>save\<close> handler that asks for an edit stops
  there with the guard up, and a \<open>save\<close> handler that asks for none goes on to
  \<open>document.save()\<close>. A \<open>ready\<close> message posts the document. An \<open>open-link\<close> message
  opens a link and touches neither the document nor the guard nor the webview.
\<close>

definition requestSave :: "host \<Rightarrow> host" where
  "requestSave h = h\<lparr>saveRequests := Suc (saveRequests h)\<rparr>"

definition onDidReceiveMessage :: "platform \<Rightarrow> WebviewMessage \<Rightarrow> host \<Rightarrow> host" where
  "onDidReceiveMessage pf message h =
     (case command message of
        CmdReady \<Rightarrow> postDocumentToWebview Init h
      | CmdEdit \<Rightarrow>
          (case content message of
             None \<Rightarrow> h
           | Some c \<Rightarrow> snd (applyContentBegin c h))
      | CmdSave \<Rightarrow>
          (case content message of
             None \<Rightarrow> requestSave h
           | Some c \<Rightarrow>
               (case applyContentBegin c h of
                  (None, h') \<Rightarrow> requestSave h'
                | (Some edit, h') \<Rightarrow> h'))
      | CmdOpenLink \<Rightarrow> h
      | CmdUploadImage \<Rightarrow> handleUploadImage pf message h)"

text \<open>
  What the platform does while a handler awaits. While \<open>applyEdit\<close> is awaited it
  delivers change events of text documents and then settles the promise: resolved, with
  \<open>true\<close> for an edit it has applied and \<open>false\<close> for one it has refused, or rejected.
  While \<open>document.save()\<close> is awaited it delivers change events too. A change event is a
  pair: whether it is for the document of this editor, and the text of that document
  then, which the platform has put into the document before the handler runs.
\<close>

datatype settle = Resolved bool | Rejected

record awaits =
  applyChanges :: "(bool \<times> string) list"
  applySettles :: settle
  saveChanges :: "(bool \<times> string) list"

definition changeEvent :: "bool \<Rightarrow> string \<Rightarrow> host \<Rightarrow> host" where
  "changeEvent sameDocument newText h =
     onDidChangeTextDocument sameDocument
       (if sameDocument then h\<lparr>documentText := newText\<rparr> else h)"

definition deliverChanges :: "(bool \<times> string) list \<Rightarrow> host \<Rightarrow> host" where
  "deliverChanges changes h = foldl (\<lambda>t (same, newText). changeEvent same newText t) h changes"

text \<open>
  \<open>applyContent\<close> to its end: the part up to the \<open>await\<close>, the change events delivered
  while \<open>applyEdit\<close> is awaited, and the \<open>finally\<close> block. The boolean says whether it
  returned; it is \<open>False\<close> when the rejection of \<open>applyEdit\<close> is thrown on.
\<close>

definition applyContent :: "awaits \<Rightarrow> string \<Rightarrow> host \<Rightarrow> bool \<times> host" where
  "applyContent aw c h =
     (case applyContentBegin c h of
        (None, h') \<Rightarrow> (True, h')
      | (Some edit, h') \<Rightarrow>
          let h'' = applyContentFinally (deliverChanges (applyChanges aw) h')
          in (case applySettles aw of
                Rejected \<Rightarrow> (False, h'')
              | Resolved ok \<Rightarrow> (True, h'')))"

text \<open>
  The \<open>edit\<close> and \<open>save\<close> cases of the message handler to their end. After
  \<open>applyContent\<close> has returned, the \<open>save\<close> case calls \<open>document.save()\<close> and the change
  events delivered while it is awaited find the guard as \<open>applyContent\<close> left it; when
  \<open>applyContent\<close> throws, the handler ends there.
\<close>

definition handleEditOrSave :: "awaits \<Rightarrow> WebviewMessage \<Rightarrow> host \<Rightarrow> host" where
  "handleEditOrSave aw message h =
     (case command message of
        CmdEdit \<Rightarrow>
          (case content message of
             None \<Rightarrow> h
           | Some c \<Rightarrow> snd (applyContent aw c h))
      | CmdSave \<Rightarrow>
          (case (case content message of
                   None \<Rightarrow> (True, h)
                 | Some c \<Rightarrow> applyContent aw c h) of
             (False, h') \<Rightarrow> h'
           | (True, h') \<Rightarrow> deliverChanges (saveChanges aw) (requestSave h'))
      | _ \<Rightarrow> h)"

section \<open>Sample values, used to run the model\<close>

definition emptyFs :: fsys where
  "emptyFs = \<lparr>files = Map.empty, directories = {}, mkdirError = None, writeFileError = None\<rparr>"

definition sampleClock :: date_time where
  "sampleClock =
     \<lparr>getFullYear = 2024, getMonth = 0, getDate = 1,
      getHours = 0, getMinutes = 0, getSeconds = 0\<rparr>"

text \<open>A stand-in for \<open>Buffer.from\<close>: zero bytes, three for every four characters.\<close>

definition sampleDecode :: "string \<Rightarrow> byte list" where
  "sampleDecode raw = replicate (3 * length (takeWhile (\<lambda>c. c \<noteq> CHR ''='') raw) div 4) 0"

definition samplePlatform :: platform where
  "samplePlatform =
     \<lparr>documentDir = ''/doc'', clock = sampleClock, bufferFromBase64 = sampleDecode,
      inferImageExtension = (\<lambda>name mime. ''.png''), safeImageBaseName = (\<lambda>name. ''image'')\<rparr>"

definition sampleHost :: host where
  "sampleHost =
     \<lparr>documentText = [], documentEol = LF, isApplyingFromWebview = False,
      postedToWebview = [], saveRequests = 0, fileSystem = emptyFs\<rparr>"

definition uploadMessage :: "string option \<Rightarrow> string option \<Rightarrow> WebviewMessage" where
  "uploadMessage rid d =
     \<lparr>command = CmdUploadImage, content = None, href = None, requestId = rid,
      fileName = Some ''image.png'', mimeType = Some ''image/png'', dataBase64 = d\<rparr>"

definition editMessage :: "string \<Rightarrow> WebviewMessage" where
  "editMessage c =
     \<lparr>command = CmdEdit, content = Some c, href = None, requestId = None,
      fileName = None, mimeType = None, dataBase64 = None\<rparr>"

definition saveMessage :: "string \<Rightarrow> WebviewMessage" where
  "saveMessage c =
     \<lparr>command = CmdSave, content = Some c, href = None, requestId = None,
      fileName = None, mimeType = None, dataBase64 = None\<rparr>"

definition sampleNodes :: "heading_node list" where
  "sampleNodes =
     [\<lparr>tagName = H1, textContent = Some '' Intro '', datasetTocId = None\<rparr>,
      \<lparr>tagName = H2, textContent = Some ''  '', datasetTocId = Some ''toc-heading-1''\<rparr>,
      \<lparr>tagName = H3, textContent = Some ''Use'', datasetTocId = None\<rparr>]"

declare probeFrom.simps [simp del]
declare decimal.simps [simp del]
declare isSameTocFrom.simps [simp del]

section \<open>Properties of the surface\<close>

lemma syncToHost_applying [simp]:
  "applyingRemoteRef s \<Longrightarrow> syncToHost eng s = s"
  by (simp add: syncToHost_def)

lemma syncToHost_no_interaction [simp]:
  "\<not> hasUserInteractionRef s \<Longrightarrow> syncToHost eng s = s"
  by (simp add: syncToHost_def)

text \<open>
  What \<open>syncToHost\<close> does when it is called: it posts an \<open>edit\<close> exactly when the guard
  is down, the user has interacted and the markdown differs from the one synced last.
\<close>

lemma syncToHost_cases:
  "((\<exists>m. postedToHost (syncToHost eng s) = postedToHost s @ [m]) \<longleftrightarrow>
      (\<not> applyingRemoteRef s \<and> hasUserInteractionRef s \<and>
       currentMarkdown eng s \<noteq> lastSyncedMarkdownRef s)) \<and>
   (\<not> applyingRemoteRef s \<and> hasUserInteractionRef s \<and>
      currentMarkdown eng s \<noteq> lastSyncedMarkdownRef s \<longrightarrow>
      syncToHost eng s =
        s\<lparr>lastSyncedMarkdownRef := currentMarkdown eng s,
          postedToHost := postedToHost s @ [Edit (currentMarkdown eng s)]\<rparr>) \<and>
   (\<not> (\<not> applyingRemoteRef s \<and> hasUserInteractionRef s \<and>
         currentMarkdown eng s \<noteq> lastSyncedMarkdownRef s) \<longrightarrow>
      syncToHost eng s = s)"
  by (auto simp: syncToHost_def postMessage_def Let_def)

text \<open>
  C1, as the code has it. The engine delivers a change notification to the update
  listener, which hands it to \<open>syncToHost\<close> only when it has a dirty element or leaf and
  the text projection differs from the one seen last. For such a notification the
  surface posts an \<open>edit\<close> exactly when \<open>applyingRemote\<close> is false,
  \<open>hasLocalUserInteraction\<close> is true and the current markdown differs from
  \<open>lastSyncedContent\<close>; then \<open>lastSyncedContent\<close> becomes the current markdown and the one
  message posted carries it. In every other case no message is posted and
  \<open>lastSyncedContent\<close> is unchanged, and a notification that the listener filters out
  changes nothing at all.
\<close>

theorem updateListener_emits_iff:
  "((\<exists>m. postedToHost (updateListener eng dirtyElements dirtyLeaves s) = postedToHost s @ [m]) \<longleftrightarrow>
      ((dirtyElements \<noteq> 0 \<or> dirtyLeaves \<noteq> 0) \<and>
       getDocumentText eng (editor s) \<noteq> previousContent s \<and>
       \<not> applyingRemoteRef s \<and> hasUserInteractionRef s \<and>
       currentMarkdown eng s \<noteq> lastSyncedMarkdownRef s))
   \<and> ((dirtyElements \<noteq> 0 \<or> dirtyLeaves \<noteq> 0) \<and>
       getDocumentText eng (editor s) \<noteq> previousContent s \<and>
       \<not> applyingRemoteRef s \<and> hasUserInteractionRef s \<and>
       currentMarkdown eng s \<noteq> lastSyncedMarkdownRef s \<longrightarrow>
      updateListener eng dirtyElements dirtyLeaves s =
        s\<lparr>previousContent := getDocumentText eng (editor s),
          lastSyncedMarkdownRef := currentMarkdown eng s,
          postedToHost := postedToHost s @ [Edit (currentMarkdown eng s)],
          tocSyncRequests := Suc (tocSyncRequests s)\<rparr>)
   \<and> (\<not> ((dirtyElements \<noteq> 0 \<or> dirtyLeaves \<noteq> 0) \<and>
         getDocumentText eng (editor s) \<noteq> previousContent s \<and>
         \<not> applyingRemoteRef s \<and> hasUserInteractionRef s \<and>
         currentMarkdown eng s \<noteq> lastSyncedMarkdownRef s) \<longrightarrow>
      postedToHost (updateListener eng dirtyElements dirtyLeaves s) = postedToHost s \<and>
      lastSyncedMarkdownRef (updateListener eng dirtyElements dirtyLeaves s) =
        lastSyncedMarkdownRef s)
   \<and> ((dirtyElements = 0 \<and> dirtyLeaves = 0) \<or>
       getDocumentText eng (editor s) = previousContent s \<longrightarrow>
      updateListener eng dirtyElements dirtyLeaves s = s)"
  by (auto simp: updateListener_def syncToHost_def postMessage_def scheduleTocSync_def
      currentMarkdown_def Let_def)

theorem updateListener_emits_iff_witness:
  "updateListener plainEngine 1 0
     ((initialSurface ''# A!'' ''# A'')\<lparr>readyRef := True, hasUserInteractionRef := True,
        lastSyncedMarkdownRef := ''# A''\<rparr>) =
   (initialSurface ''# A!'' ''# A!'')\<lparr>readyRef := True, hasUserInteractionRef := True,
        lastSyncedMarkdownRef := ''# A!'', postedToHost := [Edit ''# A!''],
        tocSyncRequests := 1\<rparr>
   \<and> postedToHost (updateListener plainEngine 1 0
     ((initialSurface ''# A!'' ''# A'')\<lparr>readyRef := True, hasUserInteractionRef := False,
        lastSyncedMarkdownRef := ''# A''\<rparr>)) = []"
  using updateListener_emits_iff [where eng = plainEngine and dirtyElements = 1
      and dirtyLeaves = 0
      and s = "(initialSurface ''# A!'' ''# A'')\<lparr>readyRef := True,
        hasUserInteractionRef := True, lastSyncedMarkdownRef := ''# A''\<rparr>"]
    updateListener_emits_iff [where eng = plainEngine and dirtyElements = 1
      and dirtyLeaves = 0
      and s = "(initialSurface ''# A!'' ''# A'')\<lparr>readyRef := True,
        hasUserInteractionRef := False, lastSyncedMarkdownRef := ''# A''\<rparr>"]
  by (simp add: initialSurface_def plainEngine_def currentMarkdown_def)

text \<open>
  C1 as stated fails for the notifications the listener filters out: with the guard
  down, a user interaction and a markdown that differs from the one synced last, a
  notification with no dirty element or leaf posts nothing, and neither does one whose
  text projection is the one seen last.
\<close>

theorem change_notification_filtered_counterexample:
  "\<not> applyingRemoteRef ((initialSurface ''# A!'' ''# A'')\<lparr>readyRef := True,
        hasUserInteractionRef := True, lastSyncedMarkdownRef := ''# A''\<rparr>)
   \<and> hasUserInteractionRef ((initialSurface ''# A!'' ''# A'')\<lparr>readyRef := True,
        hasUserInteractionRef := True, lastSyncedMarkdownRef := ''# A''\<rparr>)
   \<and> currentMarkdown plainEngine ((initialSurface ''# A!'' ''# A'')\<lparr>readyRef := True,
        hasUserInteractionRef := True, lastSyncedMarkdownRef := ''# A''\<rparr>) \<noteq> ''# A''
   \<and> postedToHost (updateListener plainEngine 0 0
        ((initialSurface ''# A!'' ''# A'')\<lparr>readyRef := True,
          hasUserInteractionRef := True, lastSyncedMarkdownRef := ''# A''\<rparr>)) = []
   \<and> currentMarkdown plainEngine ((initialSurface ''# A!'' ''# A!'')\<lparr>readyRef := True,
        hasUserInteractionRef := True, lastSyncedMarkdownRef := ''# A''\<rparr>) \<noteq> ''# A''
   \<and> postedToHost (updateListener plainEngine 1 1
        ((initialSurface ''# A!'' ''# A!'')\<lparr>readyRef := True,
          hasUserInteractionRef := True, lastSyncedMarkdownRef := ''# A''\<rparr>)) = []"
  by (simp add: updateListener_def initialSurface_def plainEngine_def currentMarkdown_def Let_def)

lemma updateListener_quiet:
  assumes "applyingRemoteRef s \<or> \<not> hasUserInteractionRef s \<or> currentMarkdown eng s = lastSyncedMarkdownRef s"
  shows "\<exists>p n. updateListener eng de dl s = s\<lparr>previousContent := p, tocSyncRequests := n\<rparr>"
proof (cases "(de = 0 \<and> dl = 0) \<or> getDocumentText eng (editor s) = previousContent s")
  case True
  then have "updateListener eng de dl s = s"
    by (auto simp: updateListener_def Let_def)
  then have "updateListener eng de dl s = s\<lparr>previousContent := previousContent s, tocSyncRequests := tocSyncRequests s\<rparr>"
    by simp
  then show ?thesis by blast
next
  case False
  let ?t = "s\<lparr>previousContent := getDocumentText eng (editor s)\<rparr>"
  from assms have "syncToHost eng ?t = ?t"
    by (auto simp: syncToHost_def currentMarkdown_def Let_def)
  with False have "updateListener eng de dl s =
      s\<lparr>previousContent := getDocumentText eng (editor s), tocSyncRequests := Suc (tocSyncRequests s)\<rparr>"
    by (auto simp: updateListener_def Let_def scheduleTocSync_def)
  then show ?thesis by blast
qed

lemma deliver_quiet:
  "applyingRemoteRef s \<or> \<not> hasUserInteractionRef s \<or> currentMarkdown eng s = lastSyncedMarkdownRef s
   \<Longrightarrow> \<exists>p n. deliver eng ns s = s\<lparr>previousContent := p, tocSyncRequests := n\<rparr>"
proof (induction ns arbitrary: s)
  case Nil
  have "deliver eng [] s = s\<lparr>previousContent := previousContent s, tocSyncRequests := tocSyncRequests s\<rparr>"
    by (simp add: deliver_def)
  then show ?case by blast
next
  case (Cons a ns)
  obtain de dl where a: "a = (de, dl)" by (cases a)
  from updateListener_quiet [OF Cons.prems, of de dl]
  obtain p n where u: "updateListener eng de dl s = s\<lparr>previousContent := p, tocSyncRequests := n\<rparr>"
    by blast
  let ?t = "s\<lparr>previousContent := p, tocSyncRequests := n\<rparr>"
  from Cons.prems have "applyingRemoteRef ?t \<or> \<not> hasUserInteractionRef ?t \<or> currentMarkdown eng ?t = lastSyncedMarkdownRef ?t"
    by (simp add: currentMarkdown_def)
  from Cons.IH [OF this] obtain p' n' where
    "deliver eng ns ?t = ?t\<lparr>previousContent := p', tocSyncRequests := n'\<rparr>" by blast
  then have "deliver eng (a # ns) s = s\<lparr>previousContent := p', tocSyncRequests := n'\<rparr>"
    using u a by (simp add: deliver_def)
  then show ?case by blast
qed

lemma setEditorMarkdown_not_ready:
  "\<not> readyRef s \<Longrightarrow> setEditorMarkdown eng ns m s =
     s\<lparr>hasUserInteractionRef := False, pendingRemoteContentRef := Some m\<rparr>"
  by (simp add: setEditorMarkdown_def)

lemma setEditorMarkdown_same:
  "readyRef s \<Longrightarrow> currentMarkdown eng s = m \<Longrightarrow> setEditorMarkdown eng ns m s =
     s\<lparr>hasUserInteractionRef := False, lastSyncedMarkdownRef := m\<rparr>"
  by (simp add: setEditorMarkdown_def currentMarkdown_def)

lemma setEditorMarkdown_replace:
  assumes "readyRef s" "currentMarkdown eng s \<noteq> m"
  shows "\<exists>p n. setEditorMarkdown eng ns m s =
     s\<lparr>editor := setDocument eng m (editor s), hasUserInteractionRef := False,
       lastSyncedMarkdownRef := m, applyingRemoteRef := False,
       setDocumentCalls := setDocumentCalls s @ [m],
       previousContent := p, tocSyncRequests := Suc n\<rparr>"
proof -
  let ?t = "s\<lparr>hasUserInteractionRef := False, applyingRemoteRef := True,
       editor := setDocument eng m (editor s), setDocumentCalls := setDocumentCalls s @ [m]\<rparr>"
  have "applyingRemoteRef ?t \<or> \<not> hasUserInteractionRef ?t \<or> currentMarkdown eng ?t = lastSyncedMarkdownRef ?t"
    by simp
  from deliver_quiet [OF this, of ns] obtain p n where
    d: "deliver eng ns ?t = ?t\<lparr>previousContent := p, tocSyncRequests := n\<rparr>" by blast
  have "setEditorMarkdown eng ns m s =
     s\<lparr>editor := setDocument eng m (editor s), hasUserInteractionRef := False,
       lastSyncedMarkdownRef := m, applyingRemoteRef := False,
       setDocumentCalls := setDocumentCalls s @ [m],
       previousContent := p, tocSyncRequests := Suc n\<rparr>"
    using assms d
    by (simp add: setEditorMarkdown_def currentMarkdown_def callSetDocument_def scheduleTocSync_def Let_def)
  then show ?thesis by blast
qed

text \<open>
  C2, as the code has it. On a ready surface, a snapshot whose content is the very string
  the editor holds as its markdown sets \<open>lastSyncedContent\<close> to it and clears
  \<open>hasLocalUserInteraction\<close>, which \<open>setEditorMarkdown\<close> does first on every path;
  nothing else changes: no \<open>setDocument\<close>, no outline refresh. And when the engine
  gives back the markdown it has been given, a second \<open>applyRemote\<close> of the same content
  right after the first changes nothing at all: no second content mutation and no second
  outline refresh.
\<close>

theorem setEditorMarkdown_same_content:
  "(readyRef s \<and> currentMarkdown eng s = m \<longrightarrow>
      setEditorMarkdown eng ns m s =
        s\<lparr>hasUserInteractionRef := False, lastSyncedMarkdownRef := m\<rparr>) \<and>
   (getDocument eng (setDocument eng m (editor s)) = Some m \<longrightarrow>
      setEditorMarkdown eng ns' m (setEditorMarkdown eng ns m s) =
        setEditorMarkdown eng ns m s)"
proof (intro conjI impI)
  assume "readyRef s \<and> currentMarkdown eng s = m"
  then show "setEditorMarkdown eng ns m s =
        s\<lparr>hasUserInteractionRef := False, lastSyncedMarkdownRef := m\<rparr>"
    by (simp add: setEditorMarkdown_same)
next
  assume rt: "getDocument eng (setDocument eng m (editor s)) = Some m"
  show "setEditorMarkdown eng ns' m (setEditorMarkdown eng ns m s) = setEditorMarkdown eng ns m s"
  proof (cases "readyRef s")
    case False
    then show ?thesis by (simp add: setEditorMarkdown_not_ready)
  next
    case True
    show ?thesis
    proof (cases "currentMarkdown eng s = m")
      case same: True
      with True show ?thesis
        by (simp add: setEditorMarkdown_same currentMarkdown_def)
    next
      case False
      from setEditorMarkdown_replace [OF True False, of ns] obtain p n where
        r: "setEditorMarkdown eng ns m s =
          s\<lparr>editor := setDocument eng m (editor s), hasUserInteractionRef := False,
            lastSyncedMarkdownRef := m, applyingRemoteRef := False,
            setDocumentCalls := setDocumentCalls s @ [m],
            previousContent := p, tocSyncRequests := Suc n\<rparr>" by blast
      show ?thesis
        unfolding r using True rt
        by (simp add: setEditorMarkdown_same currentMarkdown_def)
    qed
  qed
qed

theorem setEditorMarkdown_same_content_witness:
  "setEditorMarkdown plainEngine [] ''# A''
      ((initialSurface ''# A'' [])\<lparr>readyRef := True, hasUserInteractionRef := True\<rparr>) =
     (initialSurface ''# A'' [])\<lparr>readyRef := True, hasUserInteractionRef := False,
        lastSyncedMarkdownRef := ''# A''\<rparr>
   \<and> setEditorMarkdown plainEngine [] ''# B''
        (setEditorMarkdown plainEngine [(1, 0)] ''# B''
           ((initialSurface ''# A'' [])\<lparr>readyRef := True\<rparr>)) =
      setEditorMarkdown plainEngine [(1, 0)] ''# B''
           ((initialSurface ''# A'' [])\<lparr>readyRef := True\<rparr>)"
  using setEditorMarkdown_same_content [of
      "(initialSurface ''# A'' [])\<lparr>readyRef := True, hasUserInteractionRef := True\<rparr>"
      plainEngine "''# A''" "[]" "[]"]
    setEditorMarkdown_same_content [of
      "(initialSurface ''# A'' [])\<lparr>readyRef := True\<rparr>"
      plainEngine "''# B''" "[(1, 0)]" "[]"]
  by (simp add: initialSurface_def plainEngine_def currentMarkdown_def)

text \<open>
  C2 as stated fails in three ways. The interaction flag is cleared as well; before the
  editor is ready the content is buffered and \<open>lastSyncedContent\<close> is not set; and the
  surface compares the strings as they are, so a snapshot with \<open>\r\n\<close> line ends whose
  canonical form is the editor's content is written into the editor again.
\<close>

theorem setEditorMarkdown_only_lastSynced_counterexample:
  "setEditorMarkdown plainEngine [] ''# A''
      ((initialSurface ''# A'' [])\<lparr>readyRef := True, hasUserInteractionRef := True\<rparr>) \<noteq>
     (initialSurface ''# A'' [])\<lparr>readyRef := True, hasUserInteractionRef := True,
        lastSyncedMarkdownRef := ''# A''\<rparr>
   \<and> lastSyncedMarkdownRef
        (setEditorMarkdown plainEngine [] ''# A'' (initialSurface ''# A'' [])) \<noteq> ''# A''
   \<and> normalizeContentForDocument (''a'' @ [CR, NL] @ ''b'') LF =
       normalizeContentForDocument (''a'' @ [NL] @ ''b'') LF
   \<and> setDocumentCalls
        (setEditorMarkdown plainEngine [] (''a'' @ [CR, NL] @ ''b'')
           ((initialSurface (''a'' @ [NL] @ ''b'') [])\<lparr>readyRef := True\<rparr>)) =
       [''a'' @ [CR, NL] @ ''b'']"
  by (simp add: setEditorMarkdown_def initialSurface_def plainEngine_def currentMarkdown_def
      callSetDocument_def deliver_def scheduleTocSync_def
      normalizeContentForDocument_def replaceCR_def)






section \<open>Properties of the outline\<close>

lemma isSameTocFrom_iff:
  "length a = length b \<Longrightarrow>
   isSameTocFrom a b i \<longleftrightarrow> (\<forall>j. i \<le> j \<and> j < length a \<longrightarrow> a ! j = b ! j)"
proof (induction a b i rule: isSameTocFrom.induct)
  case (1 a b index)
  show ?case
  proof (cases "index < length a")
    case False
    then show ?thesis by (subst isSameTocFrom.simps) auto
  next
    case True
    show ?thesis
    proof (cases "a ! index = b ! index")
      case same: True
      then have "isSameTocFrom a b index = isSameTocFrom a b (index + 1)"
        using True by (subst isSameTocFrom.simps) simp
      also have "\<dots> \<longleftrightarrow> (\<forall>j. index + 1 \<le> j \<and> j < length a \<longrightarrow> a ! j = b ! j)"
        using "1.IH" True same "1.prems" by simp
      also have "\<dots> \<longleftrightarrow> (\<forall>j. index \<le> j \<and> j < length a \<longrightarrow> a ! j = b ! j)"
      proof (intro iffI allI impI)
        fix j
        assume h: "\<forall>j. index + 1 \<le> j \<and> j < length a \<longrightarrow> a ! j = b ! j"
          and j: "index \<le> j \<and> j < length a"
        show "a ! j = b ! j"
        proof (cases "j = index")
          case True
          with same show ?thesis by simp
        next
          case False
          with j have "index + 1 \<le> j \<and> j < length a" by simp
          with h show ?thesis by blast
        qed
      next
        fix j
        assume h: "\<forall>j. index \<le> j \<and> j < length a \<longrightarrow> a ! j = b ! j"
          and j: "index + 1 \<le> j \<and> j < length a"
        then have "index \<le> j \<and> j < length a" by simp
        with h show "a ! j = b ! j" by blast
      qed
      finally show ?thesis .
    next
      case differ: False
      then have "id' (a ! index) \<noteq> id' (b ! index) \<or> depth (a ! index) \<noteq> depth (b ! index)
          \<or> level (a ! index) \<noteq> level (b ! index) \<or> text' (a ! index) \<noteq> text' (b ! index)"
        using TocItem.equality [of "a ! index" "b ! index"] by fastforce
      then have "\<not> isSameTocFrom a b index"
        using True by (subst isSameTocFrom.simps) simp
      moreover have "\<not> (\<forall>j. index \<le> j \<and> j < length a \<longrightarrow> a ! j = b ! j)"
        using differ True by blast
      ultimately show ?thesis by simp
    qed
  qed
qed

lemma isSameToc_iff: "isSameToc a b \<longleftrightarrow> a = b"
proof (cases "length a = length b")
  case False
  then show ?thesis by (auto simp: isSameToc_def)
next
  case True
  then have "isSameToc a b \<longleftrightarrow> (\<forall>j<length a. a ! j = b ! j)"
    by (simp add: isSameToc_def isSameTocFrom_iff)
  with True show ?thesis by (auto intro: nth_equalityI)
qed

lemma extracted_survivors:
  "extracted nodes =
     map (\<lambda>node. (levelOf (tagName node), node, trimmedText node))
       (filter (\<lambda>node. trimmedText node \<noteq> []) nodes)"
  by (simp add: extracted_def filter_map comp_def)

lemma headingItems_length:
  "length (headingItems nodes) = length (filter (\<lambda>node. trimmedText node \<noteq> []) nodes)"
  by (simp add: headingItems_def extracted_survivors)

lemma headingItems_nth:
  assumes "i < length (filter (\<lambda>node. trimmedText node \<noteq> []) nodes)"
  shows "headingItems nodes ! i =
     \<lparr>depth = max 0 (levelOf (tagName (filter (\<lambda>node. trimmedText node \<noteq> []) nodes ! i)) - 1),
      id' = ''toc-heading-'' @ decimal i,
      level = levelOf (tagName (filter (\<lambda>node. trimmedText node \<noteq> []) nodes ! i)),
      text' = trimmedText (filter (\<lambda>node. trimmedText node \<noteq> []) nodes ! i)\<rparr>"
  using assms
  by (simp add: headingItems_def extracted_survivors nth_enumerate_eq headingId_def)

lemma updateTocFromDom_items:
  "tocItems (snd (updateTocFromDom titleText nodes v)) = nextItems titleText nodes"
  by (simp add: updateTocFromDom_def Let_def isSameToc_iff)

text \<open>
  C9. The outline that \<open>updateTocFromDom\<close> installs is \<open>nextItems\<close>. It is empty when no
  heading has text left after trimming. Otherwise it starts with one title entry at
  depth 0, followed by one entry for each heading with text, in document order: entry
  \<open>i\<close> of them has the identifier \<open>toc-heading-i\<close>, which is never that of the title, the
  level of its tag, depth \<open>max(0, level - 1)\<close> and the trimmed text.
\<close>

theorem updateTocFromDom_outline:
  "tocItems (snd (updateTocFromDom titleText nodes v)) = nextItems titleText nodes
   \<and> (filter (\<lambda>node. trimmedText node \<noteq> []) nodes = [] \<longrightarrow> nextItems titleText nodes = [])
   \<and> (filter (\<lambda>node. trimmedText node \<noteq> []) nodes \<noteq> [] \<longrightarrow>
        length (nextItems titleText nodes) =
          Suc (length (filter (\<lambda>node. trimmedText node \<noteq> []) nodes))
        \<and> nextItems titleText nodes ! 0 =
            \<lparr>depth = 0, id' = tocTitleId, level = 1, text' = titleText\<rparr>)
   \<and> (\<forall>i<length (filter (\<lambda>node. trimmedText node \<noteq> []) nodes).
        nextItems titleText nodes ! Suc i =
          \<lparr>depth = max 0 (levelOf (tagName (filter (\<lambda>node. trimmedText node \<noteq> []) nodes ! i)) - 1),
           id' = ''toc-heading-'' @ decimal i,
           level = levelOf (tagName (filter (\<lambda>node. trimmedText node \<noteq> []) nodes ! i)),
           text' = trimmedText (filter (\<lambda>node. trimmedText node \<noteq> []) nodes ! i)\<rparr>
        \<and> id' (nextItems titleText nodes ! Suc i) \<noteq> tocTitleId)"
proof -
  let ?surv = "filter (\<lambda>node. trimmedText node \<noteq> []) nodes"
  have len: "length (headingItems nodes) = length ?surv" by (rule headingItems_length)
  then have nil: "headingItems nodes = [] \<longleftrightarrow> ?surv = []"
    by (metis length_0_conv)
  have a: "?surv = [] \<longrightarrow> nextItems titleText nodes = []"
    using nil by (simp add: nextItems_def Let_def)
  have b: "?surv \<noteq> [] \<longrightarrow>
        length (nextItems titleText nodes) = Suc (length ?surv)
        \<and> nextItems titleText nodes ! 0 =
            \<lparr>depth = 0, id' = tocTitleId, level = 1, text' = titleText\<rparr>"
    using len nil by (simp add: nextItems_def Let_def)
  have c: "nextItems titleText nodes ! Suc i =
          \<lparr>depth = max 0 (levelOf (tagName (?surv ! i)) - 1),
           id' = ''toc-heading-'' @ decimal i,
           level = levelOf (tagName (?surv ! i)),
           text' = trimmedText (?surv ! i)\<rparr>
        \<and> id' (nextItems titleText nodes ! Suc i) \<noteq> tocTitleId" if "i < length ?surv" for i
  proof -
    from that len have "headingItems nodes \<noteq> []" by auto
    then have "nextItems titleText nodes ! Suc i = headingItems nodes ! i"
      by (simp add: nextItems_def Let_def)
    with headingItems_nth [OF that] show ?thesis
      by (simp add: tocTitleId_def)
  qed
  from c have c': "\<forall>i<length ?surv. nextItems titleText nodes ! Suc i =
          \<lparr>depth = max 0 (levelOf (tagName (?surv ! i)) - 1),
           id' = ''toc-heading-'' @ decimal i,
           level = levelOf (tagName (?surv ! i)),
           text' = trimmedText (?surv ! i)\<rparr>
        \<and> id' (nextItems titleText nodes ! Suc i) \<noteq> tocTitleId"
    by (intro allI impI)
  from updateTocFromDom_items a b c' show ?thesis by (intro conjI)
qed

lemma decimal_small: "decimal 0 = ''0''" "decimal (Suc 0) = ''1''" "decimal 1 = ''1''"
  by (simp_all add: decimal.simps digitChar_def)

theorem updateTocFromDom_outline_witness:
  "nextItems ''Doc'' sampleNodes =
     [\<lparr>depth = 0, id' = ''toc-document-title'', level = 1, text' = ''Doc''\<rparr>,
      \<lparr>depth = 0, id' = ''toc-heading-0'', level = 1, text' = ''Intro''\<rparr>,
      \<lparr>depth = 2, id' = ''toc-heading-1'', level = 3, text' = ''Use''\<rparr>]
   \<and> nextItems ''Doc''
       [\<lparr>tagName = H2, textContent = Some ''  '', datasetTocId = None\<rparr>,
        \<lparr>tagName = H2, textContent = None, datasetTocId = None\<rparr>] = []"
proof -
  have one: "nextItems ''Doc'' sampleNodes =
     [\<lparr>depth = 0, id' = ''toc-document-title'', level = 1, text' = ''Doc''\<rparr>,
      \<lparr>depth = 0, id' = ''toc-heading-0'', level = 1, text' = ''Intro''\<rparr>,
      \<lparr>depth = 2, id' = ''toc-heading-1'', level = 3, text' = ''Use''\<rparr>]"
    by (simp add: sampleNodes_def nextItems_def headingItems_def extracted_def trimmedText_def
      trim_def isWhiteSpace_def headingId_def decimal_small tocTitleId_def Let_def)
  have two: "filter (\<lambda>node. trimmedText node \<noteq> [])
       [\<lparr>tagName = H2, textContent = Some ''  '', datasetTocId = None\<rparr>,
        \<lparr>tagName = H2, textContent = None, datasetTocId = None\<rparr>] = []"
    by (simp add: trimmedText_def trim_def isWhiteSpace_def)
  from two updateTocFromDom_outline [where titleText = "''Doc''"
      and nodes = "[\<lparr>tagName = H2, textContent = Some ''  '', datasetTocId = None\<rparr>,
        \<lparr>tagName = H2, textContent = None, datasetTocId = None\<rparr>]"]
  have "nextItems ''Doc''
       [\<lparr>tagName = H2, textContent = Some ''  '', datasetTocId = None\<rparr>,
        \<lparr>tagName = H2, textContent = None, datasetTocId = None\<rparr>] = []"
    by blast
  with one show ?thesis by simp
qed

section \<open>Properties of the content normaliser\<close>

lemma replaceCR_free: "CR \<notin> set (replaceCR cs)"
  by (auto simp: replaceCR_def)

lemma replaceCR_id: "CR \<notin> set cs \<Longrightarrow> replaceCR cs = cs"
  by (induction cs) (auto simp: replaceCR_def)

lemma replaceCRLF_Cons: "c \<noteq> CR \<Longrightarrow> replaceCRLF (c # cs) = c # replaceCRLF cs"
  by (cases cs) simp_all

lemma replaceCRLF_id: "CR \<notin> set cs \<Longrightarrow> replaceCRLF cs = cs"
proof (induction cs)
  case Nil
  then show ?case by simp
next
  case (Cons c cs)
  then have "c \<noteq> CR" and "replaceCRLF cs = cs" by auto
  then show ?case by (simp add: replaceCRLF_Cons)
qed

lemma replaceCRLF_replaceLF: "CR \<notin> set cs \<Longrightarrow> replaceCRLF (replaceLF cs) = cs"
proof (induction cs)
  case Nil
  then show ?case by (simp add: replaceLF_def)
next
  case (Cons c cs)
  then have ih: "replaceCRLF (replaceLF cs) = cs" and c: "c \<noteq> CR" by auto
  show ?case
  proof (cases "c = NL")
    case True
    then have "replaceLF (c # cs) = CR # NL # replaceLF cs" by (simp add: replaceLF_def)
    then show ?thesis using ih True by simp
  next
    case False
    then have "replaceLF (c # cs) = c # replaceLF cs" by (simp add: replaceLF_def)
    then show ?thesis using ih c by (simp add: replaceCRLF_Cons)
  qed
qed

lemma normalizedLf_fixed:
  "CR \<notin> set cs \<Longrightarrow> replaceCR (replaceCRLF cs) = cs"
  by (simp add: replaceCRLF_id replaceCR_id)

text \<open>
  C4. Normalising twice is normalising once, for every content and for both end-of-line
  conventions of a document. The form for an \<open>LF\<close> document has no \<open>\r\<close> left (every
  \<open>\r\n\<close> and every bare \<open>\r\<close> has become \<open>\n\<close>), and the form for a \<open>CRLF\<close>
  document is that form with every \<open>\n\<close> expanded to \<open>\r\n\<close>.
\<close>

theorem normalizeContentForDocument_idempotent:
  "normalizeContentForDocument (normalizeContentForDocument x eol) eol =
     normalizeContentForDocument x eol
   \<and> CR \<notin> set (normalizeContentForDocument x LF)
   \<and> normalizeContentForDocument x CRLF = replaceLF (normalizeContentForDocument x LF)"
proof -
  let ?y = "replaceCR (replaceCRLF x)"
  have free: "CR \<notin> set ?y" by (rule replaceCR_free)
  have lf: "normalizeContentForDocument x LF = ?y"
    by (simp add: normalizeContentForDocument_def)
  have crlf: "normalizeContentForDocument x CRLF = replaceLF ?y"
    by (simp add: normalizeContentForDocument_def)
  have again: "replaceCR (replaceCRLF (replaceLF ?y)) = ?y"
    using free by (simp add: replaceCRLF_replaceLF replaceCR_id)
  have "normalizeContentForDocument (normalizeContentForDocument x eol) eol =
     normalizeContentForDocument x eol"
  proof (cases eol)
    case LF
    then show ?thesis
      using free by (simp add: normalizeContentForDocument_def normalizedLf_fixed)
  next
    case CRLF
    then show ?thesis
      using again by (simp add: normalizeContentForDocument_def)
  qed
  with free lf crlf show ?thesis by simp
qed

section \<open>Properties of the upload path\<close>

lemma probeFrom_first_free:
  "i \<le> k \<Longrightarrow> k < 1000 \<Longrightarrow>
   (\<forall>j. i \<le> j \<and> j < k \<longrightarrow> fsAccess fs (pathJoin dir (candidateName base stamp ext j))) \<Longrightarrow>
   \<not> fsAccess fs (pathJoin dir (candidateName base stamp ext k)) \<Longrightarrow>
   probeFrom fs dir base stamp ext i = Inr (pathJoin dir (candidateName base stamp ext k))"
proof (induction "k - i" arbitrary: i)
  case 0
  then have "i = k" by simp
  with 0 show ?case by (subst probeFrom.simps) simp
next
  case (Suc d)
  then have lt: "i < k" and acc: "fsAccess fs (pathJoin dir (candidateName base stamp ext i))" by auto
  have "probeFrom fs dir base stamp ext (i + 1) = Inr (pathJoin dir (candidateName base stamp ext k))"
    using Suc by (intro Suc.hyps(1)) auto
  with lt acc Suc.prems(2) show ?case by (subst probeFrom.simps) simp
qed

lemma probeFrom_exhausted:
  "(\<forall>j. i \<le> j \<and> j < 1000 \<longrightarrow> fsAccess fs (pathJoin dir (candidateName base stamp ext j))) \<Longrightarrow>
   probeFrom fs dir base stamp ext i = Inl NameExhausted"
proof (induction "1000 - i" arbitrary: i)
  case 0
  then show ?case by (subst probeFrom.simps) simp
next
  case (Suc d)
  then have "probeFrom fs dir base stamp ext (i + 1) = Inl NameExhausted"
    by (intro Suc.hyps(1)) auto
  with Suc.prems Suc.hyps(2) show ?case by (subst probeFrom.simps) simp
qed

lemma probeFrom_free:
  "probeFrom fs dir base stamp ext i = Inr p \<Longrightarrow> \<not> fsAccess fs p"
proof (induction fs dir base stamp ext i rule: probeFrom.induct)
  case (1 fs assetsDir baseName stamp extension index)
  from "1.prems" have lt: "index < 1000"
    by (subst (asm) probeFrom.simps) (simp split: if_splits)
  show ?case
  proof (cases "fsAccess fs (pathJoin assetsDir (candidateName baseName stamp extension index))")
    case True
    with lt "1.prems" have "probeFrom fs assetsDir baseName stamp extension (index + 1) = Inr p"
      by (subst (asm) probeFrom.simps) simp
    with "1.IH" lt True show ?thesis by simp
  next
    case False
    with lt "1.prems" have "p = pathJoin assetsDir (candidateName baseName stamp extension index)"
      by (subst (asm) probeFrom.simps) simp
    with False show ?thesis by simp
  qed
qed

lemma candidateName_suffix:
  "candidateName base stamp ext 0 = base @ ''-'' @ stamp @ ext"
  "0 < k \<Longrightarrow> candidateName base stamp ext k = base @ ''-'' @ stamp @ ''-'' @ decimal k @ ext"
  by (simp_all add: candidateName_def)

lemma createUnique_Inr_iff:
  "(\<exists>p. createUniqueImageFilePath fs now dir base ext = Inr p) \<longleftrightarrow>
   (\<exists>k<1000. \<not> fsAccess fs (pathJoin dir (candidateName base (stampOf now) ext k)))"
proof
  assume "\<exists>p. createUniqueImageFilePath fs now dir base ext = Inr p"
  then obtain p where p: "probeFrom fs dir base (stampOf now) ext 0 = Inr p"
    by (auto simp: createUniqueImageFilePath_def)
  show "\<exists>k<1000. \<not> fsAccess fs (pathJoin dir (candidateName base (stampOf now) ext k))"
  proof (rule ccontr)
    assume "\<not> ?thesis"
    then have "\<forall>j. 0 \<le> j \<and> j < 1000 \<longrightarrow>
        fsAccess fs (pathJoin dir (candidateName base (stampOf now) ext j))" by simp
    from probeFrom_exhausted [OF this] p show False by simp
  qed
next
  let ?P = "\<lambda>k. k < 1000 \<and> \<not> fsAccess fs (pathJoin dir (candidateName base (stampOf now) ext k))"
  assume "\<exists>k<1000. \<not> fsAccess fs (pathJoin dir (candidateName base (stampOf now) ext k))"
  then have ex: "\<exists>k. ?P k" by blast
  define k where "k = (LEAST k. ?P k)"
  have k: "?P k" unfolding k_def using ex by (rule LeastI_ex)
  have least: "\<And>j. j < k \<Longrightarrow> \<not> ?P j" unfolding k_def by (rule not_less_Least)
  have "\<forall>j. 0 \<le> j \<and> j < k \<longrightarrow> fsAccess fs (pathJoin dir (candidateName base (stampOf now) ext j))"
    using least k by (metis less_trans)
  then have "probeFrom fs dir base (stampOf now) ext 0 =
      Inr (pathJoin dir (candidateName base (stampOf now) ext k))"
    using k by (intro probeFrom_first_free) auto
  then show "\<exists>p. createUniqueImageFilePath fs now dir base ext = Inr p"
    by (simp add: createUniqueImageFilePath_def)
qed

lemma saveImageToAssets_error_files:
  "fst (saveImageToAssets pf payload fs) = Inl e \<Longrightarrow>
   files (snd (saveImageToAssets pf payload fs)) = files fs"
  by (auto simp: saveImageToAssets_def Let_def split: option.splits sum.splits if_splits)

lemma saveImageToAssets_keeps_files:
  "files fs \<subseteq>\<^sub>m files (snd (saveImageToAssets pf payload fs))"
proof (cases "fst (saveImageToAssets pf payload fs)")
  case (Inl e)
  then show ?thesis by (simp add: saveImageToAssets_error_files)
next
  case (Inr url)
  then obtain p where
    p: "createUniqueImageFilePath (fs\<lparr>directories := insert (pathJoin (documentDir pf) ''assets'') (directories fs)\<rparr>)
          (clock pf) (pathJoin (documentDir pf) ''assets'')
          (safeImageBaseName pf (payloadFileName payload))
          (inferImageExtension pf (payloadFileName payload) (payloadMimeType payload)) = Inr p"
    and f: "files (snd (saveImageToAssets pf payload fs)) =
          (files fs)(p \<mapsto> bufferFromBase64 pf (stripDataUri (payloadData payload)))"
    by (auto simp: saveImageToAssets_def Let_def split: option.splits sum.splits if_splits)
  from p have "\<not> fsAccess (fs\<lparr>directories := insert (pathJoin (documentDir pf) ''assets'') (directories fs)\<rparr>) p"
    unfolding createUniqueImageFilePath_def by (rule probeFrom_free)
  then have "files fs p = None" by (simp add: fsAccess_def)
  then show ?thesis unfolding f by (auto simp: map_le_def)
qed

text \<open>
  C7. The generator returns the first candidate that has no file: when the candidates
  \<open>0\<close> to \<open>k - 1\<close> exist and candidate \<open>k\<close> does not, it returns candidate \<open>k\<close>,
  where candidate \<open>0\<close> is \<open>base-stamp.ext\<close> and candidate \<open>k > 0\<close> is \<open>base-stamp-k.ext\<close>
  (so an existing \<open>base-stamp.ext\<close> gives \<open>base-stamp-1.ext\<close>, a second collision
  \<open>-2\<close>, and so on). When all 1000 candidates, the unsuffixed one and \<open>-1\<close> to \<open>-999\<close>,
  exist, it fails with an error. A path it returns never has a file, and
  \<open>saveImageToAssets\<close> leaves every file that exists as it is.
\<close>

theorem createUniqueImageFilePath_suffix:
  "(k < 1000 \<and>
    (\<forall>j<k. fsAccess fs (pathJoin dir (candidateName base (stampOf now) ext j))) \<and>
    \<not> fsAccess fs (pathJoin dir (candidateName base (stampOf now) ext k)) \<longrightarrow>
      createUniqueImageFilePath fs now dir base ext =
        Inr (pathJoin dir (candidateName base (stampOf now) ext k)))
   \<and> ((\<forall>j<1000. fsAccess fs (pathJoin dir (candidateName base (stampOf now) ext j))) \<longrightarrow>
      createUniqueImageFilePath fs now dir base ext = Inl NameExhausted)
   \<and> (\<forall>p. createUniqueImageFilePath fs now dir base ext = Inr p \<longrightarrow> \<not> fsAccess fs p)
   \<and> candidateName base (stampOf now) ext 0 = base @ ''-'' @ stampOf now @ ext
   \<and> (0 < k \<longrightarrow>
      candidateName base (stampOf now) ext k =
        base @ ''-'' @ stampOf now @ ''-'' @ decimal k @ ext)
   \<and> files fs' \<subseteq>\<^sub>m files (snd (saveImageToAssets pf payload fs'))"
proof (intro conjI impI allI)
  assume "k < 1000 \<and>
    (\<forall>j<k. fsAccess fs (pathJoin dir (candidateName base (stampOf now) ext j))) \<and>
    \<not> fsAccess fs (pathJoin dir (candidateName base (stampOf now) ext k))"
  then show "createUniqueImageFilePath fs now dir base ext =
        Inr (pathJoin dir (candidateName base (stampOf now) ext k))"
    unfolding createUniqueImageFilePath_def by (intro probeFrom_first_free) auto
next
  assume "\<forall>j<1000. fsAccess fs (pathJoin dir (candidateName base (stampOf now) ext j))"
  then show "createUniqueImageFilePath fs now dir base ext = Inl NameExhausted"
    unfolding createUniqueImageFilePath_def by (intro probeFrom_exhausted) auto
next
  fix p assume "createUniqueImageFilePath fs now dir base ext = Inr p"
  then show "\<not> fsAccess fs p"
    unfolding createUniqueImageFilePath_def by (rule probeFrom_free)
next
  show "candidateName base (stampOf now) ext 0 = base @ ''-'' @ stampOf now @ ext"
    by (simp add: candidateName_def)
next
  assume "0 < k"
  then show "candidateName base (stampOf now) ext k =
        base @ ''-'' @ stampOf now @ ''-'' @ decimal k @ ext"
    by (simp add: candidateName_def)
next
  show "files fs' \<subseteq>\<^sub>m files (snd (saveImageToAssets pf payload fs'))"
    by (rule saveImageToAssets_keeps_files)
qed

lemma sample_stamp: "stampOf sampleClock = ''20240101-000000''"
  by (simp add: stampOf_def sampleClock_def padStart2_def decimal.simps digitChar_def)

theorem createUniqueImageFilePath_suffix_witness:
  "createUniqueImageFilePath
     (emptyFs\<lparr>files := [''/doc/assets/image-20240101-000000.png'' \<mapsto> []]\<rparr>)
     sampleClock ''/doc/assets'' ''image'' ''.png'' =
     Inr ''/doc/assets/image-20240101-000000-1.png''
   \<and> createUniqueImageFilePath (emptyFs\<lparr>files := (\<lambda>path. Some [])\<rparr>)
       sampleClock ''/doc/assets'' ''image'' ''.png'' = Inl NameExhausted"
  using createUniqueImageFilePath_suffix [where k = 1
      and fs = "emptyFs\<lparr>files := [''/doc/assets/image-20240101-000000.png'' \<mapsto> []]\<rparr>"
      and dir = "''/doc/assets''" and base = "''image''" and now = sampleClock
      and ext = "''.png''"]
    createUniqueImageFilePath_suffix [where k = 1
      and fs = "emptyFs\<lparr>files := (\<lambda>path. Some [])\<rparr>"
      and dir = "''/doc/assets''" and base = "''image''" and now = sampleClock
      and ext = "''.png''"]
  by (simp add: sample_stamp emptyFs_def fsAccess_def pathJoin_def candidateName_def
      decimal.simps digitChar_def)

lemma includesStr_append: "includesStr (pre @ sub @ post) sub"
proof (induction pre)
  case Nil
  have "take (length sub) (sub @ post) = sub" by simp
  then show ?case by (cases "sub @ post") auto
next
  case (Cons c pre)
  then show ?case by simp
qed

lemma errorMessage_TooLarge_10MB: "includesStr (errorMessage (TooLarge n)) ''10 MB''"
proof -
  have "errorMessage (TooLarge n) =
      ''Image exceeds the '' @ ''10 MB'' @ ('' size limit (got '' @ megabytesToFixed1 n @ '' MB).'')"
    by simp
  then show ?thesis by (simp only: includesStr_append)
qed

lemma base64Test_iff:
  "base64Test raw \<longleftrightarrow>
   (\<exists>body pad. raw = body @ pad \<and> body \<noteq> [] \<and> (\<forall>c\<in>set body. isWordPlusSlash c)
      \<and> (\<forall>c\<in>set pad. c = CHR ''=''))"
proof
  assume t: "base64Test raw"
  let ?b = "takeWhile isWordPlusSlash raw" and ?p = "dropWhile isWordPlusSlash raw"
  have "raw = ?b @ ?p" by simp
  moreover have "?b \<noteq> []" using t by (simp add: base64Test_def)
  moreover have "\<forall>c\<in>set ?b. isWordPlusSlash c" by (auto dest: set_takeWhileD)
  moreover have "\<forall>c\<in>set ?p. c = CHR ''=''" using t by (simp add: base64Test_def list_all_iff)
  ultimately show "\<exists>body pad. raw = body @ pad \<and> body \<noteq> [] \<and> (\<forall>c\<in>set body. isWordPlusSlash c)
      \<and> (\<forall>c\<in>set pad. c = CHR ''='')" by blast
next
  assume "\<exists>body pad. raw = body @ pad \<and> body \<noteq> [] \<and> (\<forall>c\<in>set body. isWordPlusSlash c)
      \<and> (\<forall>c\<in>set pad. c = CHR ''='')"
  then obtain body pad where raw: "raw = body @ pad" and ne: "body \<noteq> []"
    and b: "\<forall>c\<in>set body. isWordPlusSlash c" and p: "\<forall>c\<in>set pad. c = CHR ''=''" by blast
  have eq: "\<not> isWordPlusSlash CHR ''=''" by (simp add: isWordPlusSlash_def)
  have tp: "takeWhile isWordPlusSlash pad = []"
    using p eq by (cases pad) auto
  have dp: "dropWhile isWordPlusSlash pad = pad"
    using p eq by (cases pad) auto
  have "takeWhile isWordPlusSlash raw = body"
    unfolding raw using b tp by (simp add: takeWhile_append2)
  moreover have "dropWhile isWordPlusSlash raw = pad"
    unfolding raw using b dp by (simp add: dropWhile_append2)
  ultimately show "base64Test raw"
    using ne p by (simp add: base64Test_def list_all_iff)
qed

lemma stripDataUri_prefix:
  "CHR '','' \<notin> set pre \<Longrightarrow> stripDataUri (pre @ CHR '','' # rest) = rest"
proof -
  assume a: "CHR '','' \<notin> set pre"
  then have "dropWhile (\<lambda>c. c \<noteq> CHR '','') (pre @ CHR '','' # rest) = CHR '','' # rest"
    by (induction pre) auto
  then show ?thesis by (simp add: stripDataUri_def)
qed

lemma stripDataUri_none: "CHR '','' \<notin> set d \<Longrightarrow> stripDataUri d = d"
  by (simp add: stripDataUri_def)

lemma createUnique_directories:
  "createUniqueImageFilePath (fs\<lparr>directories := ds\<rparr>) now dir base ext =
   createUniqueImageFilePath fs now dir base ext"
proof -
  have "probeFrom (fs\<lparr>directories := ds\<rparr>) dir base stamp ext i = probeFrom fs dir base stamp ext i"
    for stamp i
  proof (induction "1000 - i" arbitrary: i)
    case 0
    then show ?case by (subst probeFrom.simps, subst (2) probeFrom.simps) simp
  next
    case (Suc d)
    then have "probeFrom (fs\<lparr>directories := ds\<rparr>) dir base stamp ext (i + 1) =
        probeFrom fs dir base stamp ext (i + 1)"
      by (intro Suc.hyps(1)) auto
    then show ?case
      by (subst probeFrom.simps, subst (2) probeFrom.simps) (simp add: fsAccess_def Let_def)
  qed
  then show ?thesis by (simp add: createUniqueImageFilePath_def)
qed

text \<open>
  C8, as the code has it. \<open>saveImageToAssets\<close> rejects a payload with
  \<open>Invalid base64 image data.\<close> exactly when the assets directory could be made, a free
  file name was found (both come first) and the payload, after everything up to and
  including its first comma is dropped when it has one, is not a non-empty run of
  characters of \<open>[A-Za-z0-9_+/]\<close> followed by \<open>=\<close> characters only.
\<close>

theorem saveImageToAssets_invalid_iff:
  "(fst (saveImageToAssets pf payload fs) = Inl InvalidBase64 \<longleftrightarrow>
      mkdirError fs = None
      \<and> (\<exists>k<1000. \<not> fsAccess fs
            (pathJoin (pathJoin (documentDir pf) ''assets'')
               (candidateName (safeImageBaseName pf (payloadFileName payload))
                  (stampOf (clock pf))
                  (inferImageExtension pf (payloadFileName payload) (payloadMimeType payload)) k)))
      \<and> \<not> (\<exists>body pad. stripDataUri (payloadData payload) = body @ pad \<and> body \<noteq> []
              \<and> (\<forall>c\<in>set body. isWordPlusSlash c) \<and> (\<forall>c\<in>set pad. c = CHR ''='')))
   \<and> (CHR '','' \<notin> set pre \<longrightarrow> stripDataUri (pre @ CHR '','' # rest) = rest)
   \<and> (CHR '','' \<notin> set d \<longrightarrow> stripDataUri d = d)"
proof -
  let ?dir = "pathJoin (documentDir pf) ''assets''"
  let ?base = "safeImageBaseName pf (payloadFileName payload)"
  let ?ext = "inferImageExtension pf (payloadFileName payload) (payloadMimeType payload)"
  let ?free = "\<exists>k<1000. \<not> fsAccess fs (pathJoin ?dir (candidateName ?base (stampOf (clock pf)) ?ext k))"
  let ?cu = "createUniqueImageFilePath fs (clock pf) ?dir ?base ?ext"
  have free: "(\<exists>p. ?cu = Inr p) \<longleftrightarrow> ?free" by (rule createUnique_Inr_iff)
  have ne: "?cu \<noteq> Inl InvalidBase64"
  proof
    assume "?cu = Inl InvalidBase64"
    moreover from this have "\<not> ?free" using free by auto
    then have "\<forall>j. 0 \<le> j \<and> j < 1000 \<longrightarrow>
        fsAccess fs (pathJoin ?dir (candidateName ?base (stampOf (clock pf)) ?ext j))" by simp
    then have "?cu = Inl NameExhausted"
      unfolding createUniqueImageFilePath_def by (rule probeFrom_exhausted)
    ultimately show False by simp
  qed
  have "fst (saveImageToAssets pf payload fs) = Inl InvalidBase64 \<longleftrightarrow>
      mkdirError fs = None \<and> (\<exists>p. ?cu = Inr p) \<and> \<not> base64Test (stripDataUri (payloadData payload))"
    using ne
    by (auto simp: saveImageToAssets_def Let_def createUnique_directories
        split: option.splits sum.splits if_splits)
  then have main: "fst (saveImageToAssets pf payload fs) = Inl InvalidBase64 \<longleftrightarrow>
      mkdirError fs = None \<and> ?free
      \<and> \<not> (\<exists>body pad. stripDataUri (payloadData payload) = body @ pad \<and> body \<noteq> []
              \<and> (\<forall>c\<in>set body. isWordPlusSlash c) \<and> (\<forall>c\<in>set pad. c = CHR ''=''))"
    unfolding free base64Test_iff .
  have pre: "CHR '','' \<notin> set pre \<longrightarrow> stripDataUri (pre @ CHR '','' # rest) = rest"
    by (simp add: stripDataUri_prefix)
  have none: "CHR '','' \<notin> set d \<longrightarrow> stripDataUri d = d"
    by (simp add: stripDataUri_none)
  from main pre none show ?thesis by (intro conjI)
qed

lemma sample_fields:
  "documentDir samplePlatform = ''/doc''"
  "clock samplePlatform = sampleClock"
  "bufferFromBase64 samplePlatform = sampleDecode"
  "inferImageExtension samplePlatform name mime = ''.png''"
  "safeImageBaseName samplePlatform name = ''image''"
  "mkdirError emptyFs = None"
  "writeFileError emptyFs = None"
  "files emptyFs = Map.empty"
  by (simp_all add: samplePlatform_def emptyFs_def)

lemma sample_probe:
  "createUniqueImageFilePath (emptyFs\<lparr>directories := ds\<rparr>) sampleClock
     (pathJoin ''/doc'' ''assets'') ''image'' ''.png''
     = Inr ''/doc/assets/image-20240101-000000.png''"
  unfolding createUniqueImageFilePath_def sample_stamp
  by (subst probeFrom.simps) (simp add: emptyFs_def fsAccess_def pathJoin_def candidateName_def)

lemmas sample_run = saveImageToAssets_def Let_def sample_fields sample_probe
  stripDataUri_def base64Test_def isWordPlusSlash_def sampleDecode_def MAX_SIZE_def
  relativeTo_def

theorem saveImageToAssets_invalid_iff_witness:
  "fst (saveImageToAssets samplePlatform
       \<lparr>payloadData = ''data:image/png;base64,QU JD'', payloadFileName = None,
        payloadMimeType = None\<rparr> emptyFs) = Inl InvalidBase64
   \<and> stripDataUri (''data:image/png;base64'' @ CHR '','' # ''QU JD'') = ''QU JD''
   \<and> stripDataUri ''QUJD'' = ''QUJD''
   \<and> (\<exists>k<1000. \<not> fsAccess emptyFs
            (pathJoin (pathJoin (documentDir samplePlatform) ''assets'')
               (candidateName (safeImageBaseName samplePlatform None)
                  (stampOf (clock samplePlatform))
                  (inferImageExtension samplePlatform None None) k)))"
proof -
  have free: "\<exists>k<1000. \<not> fsAccess emptyFs
            (pathJoin (pathJoin (documentDir samplePlatform) ''assets'')
               (candidateName (safeImageBaseName samplePlatform None)
                  (stampOf (clock samplePlatform))
                  (inferImageExtension samplePlatform None None) k))"
    by (rule exI [of _ 0]) (simp add: fsAccess_def sample_fields)
  have comma: "CHR '','' \<notin> set ''data:image/png;base64''" "CHR '','' \<notin> set ''QUJD''"
    by simp_all
  show ?thesis
    using free comma
      saveImageToAssets_invalid_iff [where pf = samplePlatform and fs = emptyFs
        and payload = "\<lparr>payloadData = ''data:image/png;base64,QU JD'', payloadFileName = None,
          payloadMimeType = None\<rparr>"
        and pre = "''data:image/png;base64''" and rest = "''QU JD''" and d = "''QUJD''"]
    by (simp add: sample_run)
qed

text \<open>
  C8 as stated fails in both directions: the underscore is no letter, digit, \<open>+\<close>, \<open>/\<close>
  or \<open>=\<close>, yet \<open>ab_c\<close> is accepted and saved; and a data URI with nothing after its
  comma has no character outside the alphabet, yet it is rejected as invalid.
\<close>

theorem base64_alphabet_counterexample:
  "CHR ''_'' \<notin> set ''ABCDEFGHIJKLMNOPQRSTUVWXYZabcdefghijklmnopqrstuvwxyz0123456789+/=''
   \<and> fst (saveImageToAssets samplePlatform
        \<lparr>payloadData = ''ab_c'', payloadFileName = None, payloadMimeType = None\<rparr> emptyFs)
       = Inr ''assets/image-20240101-000000.png''
   \<and> stripDataUri ''data:image/png;base64,'' = []
   \<and> fst (saveImageToAssets samplePlatform
        \<lparr>payloadData = ''data:image/png;base64,'', payloadFileName = None,
         payloadMimeType = None\<rparr> emptyFs)
       = Inl InvalidBase64"
  by (simp add: sample_run)

lemma handleUploadImage_saves:
  "requestId message = Some rid \<Longrightarrow> rid \<noteq> [] \<Longrightarrow> dataBase64 message = Some d \<Longrightarrow> d \<noteq> [] \<Longrightarrow>
   saveImageToAssets pf \<lparr>payloadData = d, payloadFileName = fileName message,
       payloadMimeType = mimeType message\<rparr> (fileSystem h) = (res, fs) \<Longrightarrow>
   handleUploadImage pf message h =
     (case res of
        Inr url \<Rightarrow> postResult \<lparr>resultRequestId = rid, resultUrl = Some url,
                      resultError = None, resultOk = True\<rparr> (h\<lparr>fileSystem := fs\<rparr>)
      | Inl error \<Rightarrow> postResult \<lparr>resultRequestId = rid, resultUrl = None,
                      resultError = Some (errorMessage error), resultOk = False\<rparr>
                        (h\<lparr>fileSystem := fs\<rparr>))"
  by (simp add: handleUploadImage_def split: sum.splits)

text \<open>
  C5. For every \<open>upload-image\<close> message the host posts exactly one
  \<open>upload-image-result\<close>, on every path: no \<open>requestId\<close>, no \<open>dataBase64\<close>, a failure
  of \<open>saveImageToAssets\<close>, and success. The result carries the \<open>requestId\<close> of the
  request; for a request that has none, \<open>requestId ?? ''\<close> makes it the empty string.
\<close>

theorem upload_image_exactly_one_result:
  "command message = CmdUploadImage \<longrightarrow>
   (\<exists>r. postedToWebview (onDidReceiveMessage pf message h) =
          postedToWebview h @ [UploadImageResult r]
      \<and> resultRequestId r = (case requestId message of None \<Rightarrow> [] | Some rid \<Rightarrow> rid))"
proof
  assume c: "command message = CmdUploadImage"
  obtain res fs where s: "saveImageToAssets pf
      \<lparr>payloadData = the (dataBase64 message), payloadFileName = fileName message,
       payloadMimeType = mimeType message\<rparr> (fileSystem h) = (res, fs)"
    by (cases "saveImageToAssets pf
      \<lparr>payloadData = the (dataBase64 message), payloadFileName = fileName message,
       payloadMimeType = mimeType message\<rparr> (fileSystem h)")
  show "\<exists>r. postedToWebview (onDidReceiveMessage pf message h) =
          postedToWebview h @ [UploadImageResult r]
      \<and> resultRequestId r = (case requestId message of None \<Rightarrow> [] | Some rid \<Rightarrow> rid)"
    using c s
    by (cases res)
      (auto simp: onDidReceiveMessage_def handleUploadImage_def postResult_def
        split: option.splits)
qed

lemma saveImageToAssets_rejects:
  "MAX_SIZE < length (bufferFromBase64 pf (stripDataUri (payloadData payload)))
     \<or> length (bufferFromBase64 pf (stripDataUri (payloadData payload))) = 0 \<Longrightarrow>
   \<exists>e. fst (saveImageToAssets pf payload fs) = Inl e"
  by (auto simp: saveImageToAssets_def Let_def split: option.splits sum.splits)

lemma saveImageToAssets_healthy:
  assumes "mkdirError fs = None"
    and "\<exists>k<1000. \<not> fsAccess fs
            (pathJoin (pathJoin (documentDir pf) ''assets'')
               (candidateName (safeImageBaseName pf (payloadFileName payload))
                  (stampOf (clock pf))
                  (inferImageExtension pf (payloadFileName payload) (payloadMimeType payload)) k))"
    and "base64Test (stripDataUri (payloadData payload))"
  shows "fst (saveImageToAssets pf payload fs) =
     (let buffer = bufferFromBase64 pf (stripDataUri (payloadData payload)) in
      if length buffer = 0 then Inl EmptyImage
      else if MAX_SIZE < length buffer then Inl (TooLarge (length buffer))
      else fst (saveImageToAssets pf payload fs))"
proof -
  from assms(2) obtain p where
    "createUniqueImageFilePath fs (clock pf) (pathJoin (documentDir pf) ''assets'')
       (safeImageBaseName pf (payloadFileName payload))
       (inferImageExtension pf (payloadFileName payload) (payloadMimeType payload)) = Inr p"
    using createUnique_Inr_iff by blast
  with assms(1,3) show ?thesis
    by (simp add: saveImageToAssets_def Let_def createUnique_directories)
qed

theorem upload_image_exactly_one_result_witness:
  "postedToWebview (onDidReceiveMessage samplePlatform
       (uploadMessage (Some ''r1'') (Some ''QUJD'')) sampleHost) =
     [UploadImageResult \<lparr>resultRequestId = ''r1'',
        resultUrl = Some ''assets/image-20240101-000000.png'',
        resultError = None, resultOk = True\<rparr>]
   \<and> postedToWebview (onDidReceiveMessage samplePlatform
       (uploadMessage None (Some ''QUJD'')) sampleHost) =
     [UploadImageResult \<lparr>resultRequestId = [], resultUrl = None,
        resultError = Some ''Missing requestId.'', resultOk = False\<rparr>]
   \<and> postedToWebview (onDidReceiveMessage samplePlatform
       (uploadMessage (Some ''r2'') None) sampleHost) =
     [UploadImageResult \<lparr>resultRequestId = ''r2'', resultUrl = None,
        resultError = Some ''Invalid image data.'', resultOk = False\<rparr>]"
  using upload_image_exactly_one_result [where pf = samplePlatform and h = sampleHost
      and message = "uploadMessage (Some ''r1'') (Some ''QUJD'')"]
    upload_image_exactly_one_result [where pf = samplePlatform and h = sampleHost
      and message = "uploadMessage None (Some ''QUJD'')"]
    upload_image_exactly_one_result [where pf = samplePlatform and h = sampleHost
      and message = "uploadMessage (Some ''r2'') None"]
  by (simp add: onDidReceiveMessage_def handleUploadImage_def postResult_def
      uploadMessage_def sampleHost_def sample_run)

text \<open>
  C6, as the code has it. When the payload of an \<open>upload-image\<close> message decodes to
  more than 10 MiB or to no byte at all, the one result the host posts has \<open>ok: false\<close>
  and no url, and the files are as they were: the error is turned into the result and
  the handler returns. When the request has a \<open>requestId\<close>, the assets directory can
  be made, a candidate name is free and the payload passes the base64 test (all checked
  before the size), the error of an oversized payload is the size message, which
  contains \<open>10 MB\<close>, and the error of an empty one is the message for empty data.
\<close>

theorem upload_image_too_large_or_empty:
  "(command message = CmdUploadImage \<and> dataBase64 message = Some d
      \<and> (MAX_SIZE < length (bufferFromBase64 pf (stripDataUri d))
          \<or> length (bufferFromBase64 pf (stripDataUri d)) = 0) \<longrightarrow>
      (\<exists>r. postedToWebview (onDidReceiveMessage pf message h) =
             postedToWebview h @ [UploadImageResult r]
         \<and> \<not> resultOk r \<and> resultUrl r = None)
      \<and> files (fileSystem (onDidReceiveMessage pf message h)) = files (fileSystem h))
   \<and> (command message = CmdUploadImage \<and> requestId message = Some rid \<and> rid \<noteq> []
      \<and> dataBase64 message = Some d
      \<and> mkdirError (fileSystem h) = None
      \<and> (\<exists>k<1000. \<not> fsAccess (fileSystem h)
            (pathJoin (pathJoin (documentDir pf) ''assets'')
               (candidateName (safeImageBaseName pf (fileName message))
                  (stampOf (clock pf))
                  (inferImageExtension pf (fileName message) (mimeType message)) k)))
      \<and> base64Test (stripDataUri d) \<longrightarrow>
      (MAX_SIZE < length (bufferFromBase64 pf (stripDataUri d)) \<longrightarrow>
         postedToWebview (onDidReceiveMessage pf message h) =
           postedToWebview h @ [UploadImageResult
             \<lparr>resultRequestId = rid, resultUrl = None,
              resultError = Some (errorMessage (TooLarge (length (bufferFromBase64 pf (stripDataUri d))))),
              resultOk = False\<rparr>]
         \<and> includesStr (errorMessage (TooLarge (length (bufferFromBase64 pf (stripDataUri d)))))
              ''10 MB'')
      \<and> (length (bufferFromBase64 pf (stripDataUri d)) = 0 \<longrightarrow>
         postedToWebview (onDidReceiveMessage pf message h) =
           postedToWebview h @ [UploadImageResult
             \<lparr>resultRequestId = rid, resultUrl = None,
              resultError = Some ''Image data is empty. Save failed.'',
              resultOk = False\<rparr>]))"
proof (intro conjI impI; (elim conjE)?)
  let ?payload = "\<lparr>payloadData = d, payloadFileName = fileName message,
       payloadMimeType = mimeType message\<rparr>"
  let ?len = "length (bufferFromBase64 pf (stripDataUri d))"
  {
    assume c: "command message = CmdUploadImage" and d: "dataBase64 message = Some d"
      and big: "MAX_SIZE < ?len \<or> ?len = 0"
    from big obtain e where e: "fst (saveImageToAssets pf ?payload (fileSystem h)) = Inl e"
      using saveImageToAssets_rejects [of pf ?payload "fileSystem h"] by auto
    then obtain fs where s: "saveImageToAssets pf ?payload (fileSystem h) = (Inl e, fs)"
      by (cases "saveImageToAssets pf ?payload (fileSystem h)") auto
    have fs: "files fs = files (fileSystem h)"
      using saveImageToAssets_error_files [OF e] s by simp
    show "\<exists>r. postedToWebview (onDidReceiveMessage pf message h) =
             postedToWebview h @ [UploadImageResult r]
         \<and> \<not> resultOk r \<and> resultUrl r = None"
      using c d s
      by (auto simp: onDidReceiveMessage_def handleUploadImage_def postResult_def
          split: option.splits)
    show "files (fileSystem (onDidReceiveMessage pf message h)) = files (fileSystem h)"
      using c d s fs
      by (auto simp: onDidReceiveMessage_def handleUploadImage_def postResult_def
          split: option.splits)
  }
  assume c: "command message = CmdUploadImage" and rid: "requestId message = Some rid" "rid \<noteq> []"
    and d: "dataBase64 message = Some d" and mk: "mkdirError (fileSystem h) = None"
    and free: "\<exists>k<1000. \<not> fsAccess (fileSystem h)
            (pathJoin (pathJoin (documentDir pf) ''assets'')
               (candidateName (safeImageBaseName pf (fileName message))
                  (stampOf (clock pf))
                  (inferImageExtension pf (fileName message) (mimeType message)) k))"
    and ok: "base64Test (stripDataUri d)"
  from ok have dne: "d \<noteq> []" by (auto simp: base64Test_def stripDataUri_def)
  have healthy: "fst (saveImageToAssets pf ?payload (fileSystem h)) =
     (let buffer = bufferFromBase64 pf (stripDataUri d) in
      if length buffer = 0 then Inl EmptyImage
      else if MAX_SIZE < length buffer then Inl (TooLarge (length buffer))
      else fst (saveImageToAssets pf ?payload (fileSystem h)))"
    using saveImageToAssets_healthy [of "fileSystem h" pf ?payload] mk free ok by simp
  obtain res fs where s: "saveImageToAssets pf ?payload (fileSystem h) = (res, fs)"
    by (cases "saveImageToAssets pf ?payload (fileSystem h)")
  note run = handleUploadImage_saves [OF rid d dne s]
  {
    assume big: "MAX_SIZE < ?len"
    then have "res = Inl (TooLarge ?len)"
      using healthy s by (auto simp: Let_def MAX_SIZE_def)
    then show "postedToWebview (onDidReceiveMessage pf message h) =
           postedToWebview h @ [UploadImageResult
             \<lparr>resultRequestId = rid, resultUrl = None,
              resultError = Some (errorMessage (TooLarge ?len)), resultOk = False\<rparr>]"
      using c run by (simp add: onDidReceiveMessage_def postResult_def)
    show "includesStr (errorMessage (TooLarge ?len)) ''10 MB''"
      by (rule errorMessage_TooLarge_10MB)
  }
  {
    assume "?len = 0"
    then have "res = Inl EmptyImage"
      using healthy s by (auto simp: Let_def)
    then show "postedToWebview (onDidReceiveMessage pf message h) =
           postedToWebview h @ [UploadImageResult
             \<lparr>resultRequestId = rid, resultUrl = None,
              resultError = Some ''Image data is empty. Save failed.'', resultOk = False\<rparr>]"
      using c run by (simp add: onDidReceiveMessage_def postResult_def)
  }
qed

lemma big_fields:
  "documentDir (samplePlatform\<lparr>bufferFromBase64 := f\<rparr>) = ''/doc''"
  "clock (samplePlatform\<lparr>bufferFromBase64 := f\<rparr>) = sampleClock"
  "inferImageExtension (samplePlatform\<lparr>bufferFromBase64 := f\<rparr>) name mime = ''.png''"
  "safeImageBaseName (samplePlatform\<lparr>bufferFromBase64 := f\<rparr>) name = ''image''"
  by (simp_all add: samplePlatform_def)

lemma full_probe:
  "createUniqueImageFilePath (emptyFs\<lparr>files := (\<lambda>path. Some []), directories := ds\<rparr>)
     now dir base ext = Inl NameExhausted"
  unfolding createUniqueImageFilePath_def
  by (rule probeFrom_exhausted) (simp add: fsAccess_def)

theorem upload_image_too_large_or_empty_witness:
  "postedToWebview (onDidReceiveMessage
       (samplePlatform\<lparr>bufferFromBase64 := (\<lambda>raw. replicate 11534336 0)\<rparr>)
       (uploadMessage (Some ''r1'') (Some ''QUJD'')) sampleHost) =
     [UploadImageResult \<lparr>resultRequestId = ''r1'', resultUrl = None,
        resultError = Some ''Image exceeds the 10 MB size limit (got 11.0 MB).'',
        resultOk = False\<rparr>]
   \<and> files (fileSystem (onDidReceiveMessage
       (samplePlatform\<lparr>bufferFromBase64 := (\<lambda>raw. replicate 11534336 0)\<rparr>)
       (uploadMessage (Some ''r1'') (Some ''QUJD'')) sampleHost)) = Map.empty
   \<and> postedToWebview (onDidReceiveMessage samplePlatform
       (uploadMessage (Some ''r1'') (Some ''A'')) sampleHost) =
     [UploadImageResult \<lparr>resultRequestId = ''r1'', resultUrl = None,
        resultError = Some ''Image data is empty. Save failed.'',
        resultOk = False\<rparr>]"
proof -
  let ?big = "samplePlatform\<lparr>bufferFromBase64 := (\<lambda>raw. replicate 11534336 0)\<rparr>"
  have free: "\<exists>k<1000. \<not> fsAccess (fileSystem sampleHost)
            (pathJoin (pathJoin (documentDir pf) ''assets'')
               (candidateName (safeImageBaseName pf (fileName m)) (stampOf (clock pf))
                  (inferImageExtension pf (fileName m) (mimeType m)) k))" for pf m
    by (rule exI [of _ 0]) (simp add: fsAccess_def sampleHost_def sample_fields)
  have m: "megabytesToFixed1 11534336 = ''11.0''"
    by (simp add: megabytesToFixed1_def decimal.simps digitChar_def)
  show ?thesis
    using free [of ?big "uploadMessage (Some ''r1'') (Some ''QUJD'')"]
      free [of samplePlatform "uploadMessage (Some ''r1'') (Some ''A'')"]
      upload_image_too_large_or_empty [where pf = ?big and h = sampleHost and rid = "''r1''"
        and d = "''QUJD''" and message = "uploadMessage (Some ''r1'') (Some ''QUJD'')"]
      upload_image_too_large_or_empty [where pf = samplePlatform and h = sampleHost
        and rid = "''r1''" and d = "''A''" and message = "uploadMessage (Some ''r1'') (Some ''A'')"]
    by (simp add: uploadMessage_def sampleHost_def sample_fields stripDataUri_def base64Test_def
        isWordPlusSlash_def sampleDecode_def MAX_SIZE_def m)
qed

text \<open>
  C6 as stated fails for the message: a payload that decodes to 11 MiB is answered with
  the error of \<open>fs.mkdir\<close> when the directory cannot be made, with the error of the
  name generator when every candidate exists, and with the base64 error when it holds a
  space; none of these contains \<open>10 MB\<close>.
\<close>

theorem upload_image_10MB_counterexample:
  "MAX_SIZE < length (bufferFromBase64
       (samplePlatform\<lparr>bufferFromBase64 := (\<lambda>raw. replicate 11534336 0)\<rparr>)
       (stripDataUri ''QUJD''))
   \<and> postedToWebview (onDidReceiveMessage
       (samplePlatform\<lparr>bufferFromBase64 := (\<lambda>raw. replicate 11534336 0)\<rparr>)
       (uploadMessage (Some ''r1'') (Some ''QUJD''))
       (sampleHost\<lparr>fileSystem := emptyFs\<lparr>mkdirError := Some ''EACCES: permission denied''\<rparr>\<rparr>)) =
     [UploadImageResult \<lparr>resultRequestId = ''r1'', resultUrl = None,
        resultError = Some ''EACCES: permission denied'', resultOk = False\<rparr>]
   \<and> \<not> includesStr ''EACCES: permission denied'' ''10 MB''
   \<and> postedToWebview (onDidReceiveMessage
       (samplePlatform\<lparr>bufferFromBase64 := (\<lambda>raw. replicate 11534336 0)\<rparr>)
       (uploadMessage (Some ''r1'') (Some ''QUJD''))
       (sampleHost\<lparr>fileSystem := emptyFs\<lparr>files := (\<lambda>path. Some [])\<rparr>\<rparr>)) =
     [UploadImageResult \<lparr>resultRequestId = ''r1'', resultUrl = None,
        resultError = Some ''Could not generate a unique image filename. Please try again.'',
        resultOk = False\<rparr>]
   \<and> \<not> includesStr ''Could not generate a unique image filename. Please try again.'' ''10 MB''
   \<and> MAX_SIZE < length (bufferFromBase64
       (samplePlatform\<lparr>bufferFromBase64 := (\<lambda>raw. replicate 11534336 0)\<rparr>)
       (stripDataUri ''QU JD''))
   \<and> postedToWebview (onDidReceiveMessage
       (samplePlatform\<lparr>bufferFromBase64 := (\<lambda>raw. replicate 11534336 0)\<rparr>)
       (uploadMessage (Some ''r1'') (Some ''QU JD'')) sampleHost) =
     [UploadImageResult \<lparr>resultRequestId = ''r1'', resultUrl = None,
        resultError = Some ''Invalid base64 image data.'', resultOk = False\<rparr>]
   \<and> \<not> includesStr ''Invalid base64 image data.'' ''10 MB''"
proof -
  let ?big = "samplePlatform\<lparr>bufferFromBase64 := (\<lambda>raw. replicate 11534336 0)\<rparr>"
  have size: "MAX_SIZE < length (bufferFromBase64 ?big raw)" for raw
    by (simp add: MAX_SIZE_def)
  have a: "postedToWebview (onDidReceiveMessage ?big
       (uploadMessage (Some ''r1'') (Some ''QUJD''))
       (sampleHost\<lparr>fileSystem := emptyFs\<lparr>mkdirError := Some ''EACCES: permission denied''\<rparr>\<rparr>)) =
     [UploadImageResult \<lparr>resultRequestId = ''r1'', resultUrl = None,
        resultError = Some ''EACCES: permission denied'', resultOk = False\<rparr>]"
    by (simp add: onDidReceiveMessage_def handleUploadImage_def postResult_def
        uploadMessage_def sampleHost_def saveImageToAssets_def Let_def)
  have b: "postedToWebview (onDidReceiveMessage ?big
       (uploadMessage (Some ''r1'') (Some ''QUJD''))
       (sampleHost\<lparr>fileSystem := emptyFs\<lparr>files := (\<lambda>path. Some [])\<rparr>\<rparr>)) =
     [UploadImageResult \<lparr>resultRequestId = ''r1'', resultUrl = None,
        resultError = Some ''Could not generate a unique image filename. Please try again.'',
        resultOk = False\<rparr>]"
    by (simp add: onDidReceiveMessage_def handleUploadImage_def postResult_def
        uploadMessage_def sampleHost_def saveImageToAssets_def Let_def full_probe sample_fields)
  have c: "postedToWebview (onDidReceiveMessage ?big
       (uploadMessage (Some ''r1'') (Some ''QU JD'')) sampleHost) =
     [UploadImageResult \<lparr>resultRequestId = ''r1'', resultUrl = None,
        resultError = Some ''Invalid base64 image data.'', resultOk = False\<rparr>]"
    by (simp add: onDidReceiveMessage_def handleUploadImage_def postResult_def
        uploadMessage_def sampleHost_def saveImageToAssets_def Let_def big_fields sample_fields
        sample_probe stripDataUri_def base64Test_def isWordPlusSlash_def)
  have n: "\<not> includesStr ''EACCES: permission denied'' ''10 MB''"
    "\<not> includesStr ''Could not generate a unique image filename. Please try again.'' ''10 MB''"
    "\<not> includesStr ''Invalid base64 image data.'' ''10 MB''"
    by simp_all
  from size a b c n show ?thesis by blast
qed

section \<open>Properties of the host's echo guard\<close>

lemma deliverChanges_guarded:
  "isApplyingFromWebview h \<Longrightarrow>
   postedToWebview (deliverChanges changes h) = postedToWebview h
   \<and> isApplyingFromWebview (deliverChanges changes h)"
proof (induction changes arbitrary: h)
  case Nil
  then show ?case by (simp add: deliverChanges_def)
next
  case (Cons c changes)
  obtain same newText where c: "c = (same, newText)" by (cases c)
  let ?h = "changeEvent same newText h"
  have step: "postedToWebview ?h = postedToWebview h" "isApplyingFromWebview ?h"
    using Cons.prems by (simp_all add: changeEvent_def onDidChangeTextDocument_def)
  have "deliverChanges (c # changes) h = deliverChanges changes ?h"
    using c by (simp add: deliverChanges_def)
  with Cons.IH [OF step(2)] step(1) show ?case by simp
qed

text \<open>
  Where the guard works: whatever change events are delivered while \<open>applyEdit\<close> is
  awaited, \<open>applyContent\<close> posts nothing, and after an edit it leaves the guard down. So
  an \<open>edit\<close> message is never answered with a snapshot.
\<close>

lemma applyContent_guarded:
  "postedToWebview (snd (applyContent aw c h)) = postedToWebview h
   \<and> (normalizeContentForDocument c (documentEol h) \<noteq> documentText h \<longrightarrow>
        \<not> isApplyingFromWebview (snd (applyContent aw c h)))"
proof (cases "normalizeContentForDocument c (documentEol h) = documentText h")
  case True
  then show ?thesis by (simp add: applyContent_def applyContentBegin_def)
next
  case False
  let ?h1 = "h\<lparr>isApplyingFromWebview := True\<rparr>"
  have b: "applyContentBegin c h = (Some (normalizeContentForDocument c (documentEol h)), ?h1)"
    using False by (simp add: applyContentBegin_def)
  have "isApplyingFromWebview ?h1" by simp
  from deliverChanges_guarded [OF this, of "applyChanges aw"]
  have "postedToWebview (deliverChanges (applyChanges aw) ?h1) = postedToWebview h" by simp
  then show ?thesis
    using False by (cases "applySettles aw") (simp_all add: applyContent_def b applyContentFinally_def)
qed

lemma edit_posts_nothing:
  "command message = CmdEdit \<Longrightarrow>
   postedToWebview (handleEditOrSave aw message h) = postedToWebview h"
  by (simp add: handleEditOrSave_def applyContent_guarded split: option.splits)

text \<open>
  C3 says that the host never posts an \<open>update\<close> for a document change it made itself
  while applying an \<open>edit\<close> or \<open>save\<close>. The guard is up only while \<open>applyEdit\<close> is
  awaited. In the \<open>save\<close> case \<open>document.save()\<close> follows the \<open>finally\<close> block, and the
  platform reports the save of a dirty document as a change event of that document (its
  dirty state changes). That event finds the guard down, and the host posts the text it
  has just saved back to the surface. Here the document is empty, \<open>save "a"\<close> is
  received, the edit is applied and its change event is not answered, and the change
  event of the save is answered with an \<open>update\<close> snapshot \<open>"a"\<close>.
\<close>

theorem save_echoes_own_change:
  "postedToWebview
     (handleEditOrSave
        \<lparr>applyChanges = [(True, ''a'')], applySettles = Resolved True,
         saveChanges = [(True, ''a'')]\<rparr>
        (saveMessage ''a'') sampleHost) = [Snapshot Update ''a'']
   \<and> postedToWebview
     (snd (applyContent
        \<lparr>applyChanges = [(True, ''a'')], applySettles = Resolved True,
         saveChanges = [(True, ''a'')]\<rparr> ''a'' sampleHost)) = []"
  by (simp add: handleEditOrSave_def applyContent_def applyContentBegin_def
      applyContentFinally_def deliverChanges_def changeEvent_def onDidChangeTextDocument_def
      postDocumentToWebview_def requestSave_def saveMessage_def sampleHost_def
      normalizeContentForDocument_def replaceCR_def Let_def)


end
